theory Spec2Isabelle
  imports Complex_Main "HOL-Library.Log_Nat"
begin

section \<open>Optical-power extraction of LogProcessor.py\<close>

text \<open>
  This theory embeds \<^verbatim>\<open>extract_power_info\<close> of \<^verbatim>\<open>src/LogProcessor.py\<close>: the regular
  expressions of the pattern catalogue, Python's \<^verbatim>\<open>re.search\<close>, \<^verbatim>\<open>str.strip\<close>,
  \<^verbatim>\<open>re.split\<close> and \<^verbatim>\<open>float\<close> as far as the function uses them, the per-segment
  state machine with its nested \<^verbatim>\<open>save_port\<close>, the segmentation of a file and the
  device-name cascade.

  Scope of the model. A line is a \<^typ>\<open>string\<close>, a list of 8-bit characters read as the
  code points 0..255 (Latin-1). On these code points the character classes below are
  the ones of Python 3 for \<^verbatim>\<open>str\<close> patterns. The input of the model is the list of
  lines that \<^verbatim>\<open>f.read().splitlines()\<close> returns; opening and decoding the file is outside
  the model, and so are the debug prints, which do not change any variable.
\<close>

subsection \<open>Character classes\<close>

text \<open>\<^verbatim>\<open>\s\<close> and \<^verbatim>\<open>str.isspace\<close>: code points 9-13, 28-31, 32, 133 and 160.\<close>

definition is_space :: "char \<Rightarrow> bool" where
  "is_space c = (of_char c \<in> {9, 10, 11, 12, 13, 28, 29, 30, 31, 32, 133, 160 :: nat})"

text \<open>\<^verbatim>\<open>\d\<close>: the only decimal digits below 256 are the ASCII ones.\<close>

definition is_digit :: "char \<Rightarrow> bool" where
  "is_digit c = (c \<in> set ''0123456789'')"

definition is_upper :: "char \<Rightarrow> bool" where
  "is_upper c = (c \<in> set ''ABCDEFGHIJKLMNOPQRSTUVWXYZ'')"

definition is_lower :: "char \<Rightarrow> bool" where
  "is_lower c = (c \<in> set ''abcdefghijklmnopqrstuvwxyz'')"

text \<open>\<^verbatim>\<open>[A-Za-z]\<close>; under \<^verbatim>\<open>re.IGNORECASE\<close> no further code point below 256 joins it.\<close>

definition is_ascii_alpha :: "char \<Rightarrow> bool" where
  "is_ascii_alpha c = (is_upper c \<or> is_lower c)"

text \<open>
  \<^verbatim>\<open>\w\<close>: the underscore and every code point with \<^verbatim>\<open>str.isalnum\<close>. Below 256
  these are the ASCII letters and digits, 170, 178, 179, 181, 185, 186, 188-190 and
  192-255 without 215 and 247.
\<close>

definition is_word :: "char \<Rightarrow> bool" where
  "is_word c = (is_digit c \<or> is_ascii_alpha c \<or>
     (let n = (of_char c :: nat) in
        n = 95 \<or> n \<in> {170, 178, 179, 181, 185, 186, 188, 189, 190} \<or>
        (192 \<le> n \<and> n \<noteq> 215 \<and> n \<noteq> 247)))"

text \<open>
  Lower-casing of one character, for \<^verbatim>\<open>re.IGNORECASE\<close> on the ASCII letters of the
  patterns and for \<^verbatim>\<open>str.lower\<close> on a captured \<^verbatim>\<open>TX\<close>/\<^verbatim>\<open>RX\<close>: an upper-case
  ASCII letter gets the bit of value 32 set, which adds 32 to its code.
\<close>

definition lower :: "char \<Rightarrow> char" where
  "lower c =
     (if is_upper c
      then (case c of Char b0 b1 b2 b3 b4 b5 b6 b7 \<Rightarrow> Char b0 b1 b2 b3 b4 True b6 b7)
      else c)"

text \<open>\<^verbatim>\<open>str.strip()\<close> without argument removes white space at both ends.\<close>

definition strip :: "string \<Rightarrow> string" where
  "strip s = rev (dropWhile is_space (rev (dropWhile is_space s)))"

text \<open>\<^verbatim>\<open>sub in s\<close> for strings.\<close>

fun starts_with :: "string \<Rightarrow> string \<Rightarrow> bool" where
  "starts_with [] s = True"
| "starts_with (c # cs) [] = False"
| "starts_with (c # cs) (d # ds) = (c = d \<and> starts_with cs ds)"

fun contains :: "string \<Rightarrow> string \<Rightarrow> bool" where
  "contains sub [] = (sub = [])"
| "contains sub (c # cs) = (starts_with sub (c # cs) \<or> contains sub cs)"

subsection \<open>Regular expressions and \<^verbatim>\<open>re.search\<close>\<close>

text \<open>
  The patterns of the source use literals, character classes, sequence, alternation,
  greedy \<^verbatim>\<open>*\<close>, \<^verbatim>\<open>+\<close>, \<^verbatim>\<open>?\<close> and \<^verbatim>\<open>{2,}\<close>, capturing groups, \<^verbatim>\<open>^\<close> (without
  \<^verbatim>\<open>re.MULTILINE\<close>) and \<^verbatim>\<open>\b\<close>. \<open>ILit c\<close> is a literal under \<^verbatim>\<open>re.IGNORECASE\<close>.
\<close>

datatype cls =
    Lit char | ILit char | Space | NonSpace | Digit | Word | Alpha
  | OneOf string | NoneOf string | Or cls cls

fun cm :: "cls \<Rightarrow> char \<Rightarrow> bool" where
  "cm (Lit d) c = (c = d)"
| "cm (ILit d) c = (lower c = lower d)"
| "cm Space c = is_space c"
| "cm NonSpace c = (\<not> is_space c)"
| "cm Digit c = is_digit c"
| "cm Word c = is_word c"
| "cm Alpha c = is_ascii_alpha c"
| "cm (OneOf ds) c = (c \<in> set ds)"
| "cm (NoneOf ds) c = (c \<notin> set ds)"
| "cm (Or a b) c = (cm a c \<or> cm b c)"

datatype rx = Eps | Ch cls | Seq rx rx | Alt rx rx | Star rx | Grp nat rx | Bol | Wb

text \<open>
  A matcher state: the character before the current position (\<open>None\<close> at the start of
  the string), the rest of the string, and the groups captured so far, the latest first.
\<close>

type_synonym mstate = "char option \<times> string \<times> (nat \<times> string) list"

text \<open>
  \<open>ms r st\<close> lists the states in which a match of \<open>r\<close> from \<open>st\<close> can end, in the order
  in which a backtracking matcher tries them: the left alternative before the right one,
  one more iteration of a star before stopping. Its head is the match Python reports.
  An iteration of a star that consumes nothing is not repeated; the rest of the string
  bounds the number of iterations.
\<close>

fun star_iter :: "(mstate \<Rightarrow> mstate list) \<Rightarrow> nat \<Rightarrow> mstate \<Rightarrow> mstate list" where
  "star_iter f 0 st = [st]"
| "star_iter f (Suc n) st =
     concat (map (star_iter f n)
       (filter (\<lambda>st'. length (fst (snd st')) < length (fst (snd st))) (f st))) @ [st]"

definition at_boundary :: "char option \<Rightarrow> string \<Rightarrow> bool" where
  "at_boundary p s =
     ((case p of None \<Rightarrow> False | Some c \<Rightarrow> is_word c) \<noteq>
      (case s of [] \<Rightarrow> False | c # _ \<Rightarrow> is_word c))"

fun ms :: "rx \<Rightarrow> mstate \<Rightarrow> mstate list" where
  "ms Eps st = [st]"
| "ms (Ch k) (p, s, g) =
     (case s of [] \<Rightarrow> [] | c # cs \<Rightarrow> if cm k c then [(Some c, cs, g)] else [])"
| "ms (Seq a b) st = concat (map (ms b) (ms a st))"
| "ms (Alt a b) st = ms a st @ ms b st"
| "ms (Star a) st = star_iter (ms a) (length (fst (snd st))) st"
| "ms (Grp n a) (p, s, g) =
     map (\<lambda>(p', s', g'). (p', s', (n, take (length s - length s') s) # g')) (ms a (p, s, g))"
| "ms Bol (p, s, g) = (if p = None then [(p, s, g)] else [])"
| "ms Wb (p, s, g) = (if at_boundary p s then [(p, s, g)] else [])"

text \<open>\<^verbatim>\<open>pattern.search(s)\<close>: the first start position with a match, from the left.\<close>

fun search_from :: "rx \<Rightarrow> char option \<Rightarrow> string \<Rightarrow> (nat \<times> string) list option" where
  "search_from r p [] = (case ms r (p, [], []) of [] \<Rightarrow> None | (_, _, g) # _ \<Rightarrow> Some g)"
| "search_from r p (c # cs) =
     (case ms r (p, c # cs, []) of
        [] \<Rightarrow> search_from r (Some c) cs
      | (_, _, g) # _ \<Rightarrow> Some g)"

definition re_search :: "rx \<Rightarrow> string \<Rightarrow> (nat \<times> string) list option" where
  "re_search r s = search_from r None s"

text \<open>\<^verbatim>\<open>m.group(n)\<close>; \<open>None\<close> is Python's \<^verbatim>\<open>None\<close> for a group that took no part.\<close>

definition match_group :: "(nat \<times> string) list \<Rightarrow> nat \<Rightarrow> string option" where
  "match_group m n = map_of m n"

text \<open>The truth value of a match object in \<^verbatim>\<open>if pattern.search(line):\<close>.\<close>

definition matches :: "rx \<Rightarrow> string \<Rightarrow> bool" where
  "matches r s = (re_search r s \<noteq> None)"

text \<open>Abbreviations for writing the patterns.\<close>

definition lit :: "string \<Rightarrow> rx" where
  "lit s = foldr (\<lambda>c r. Seq (Ch (Lit c)) r) s Eps"

definition ilit :: "string \<Rightarrow> rx" where
  "ilit s = foldr (\<lambda>c r. Seq (Ch (ILit c)) r) s Eps"

definition Plus :: "rx \<Rightarrow> rx" where
  "Plus r = Seq r (Star r)"

definition Opt :: "rx \<Rightarrow> rx" where
  "Opt r = Alt r Eps"

definition seqs :: "rx list \<Rightarrow> rx" where
  "seqs rs = foldr Seq rs Eps"

text \<open>\<^verbatim>\<open>\s+\<close>, \<^verbatim>\<open>\s*\<close>, \<^verbatim>\<open>\d+\<close> and the number \<^verbatim>\<open>(-?\d+(?:\.\d+)?)\<close> as group \<open>n\<close>.\<close>

definition sp1 :: rx where
  "sp1 = Plus (Ch Space)"

definition sp0 :: rx where
  "sp0 = Star (Ch Space)"

definition digits1 :: rx where
  "digits1 = Plus (Ch Digit)"

definition number :: "nat \<Rightarrow> rx" where
  "number n = Grp n (seqs [Opt (Ch (Lit CHR ''-'')), digits1, Opt (Seq (Ch (Lit CHR ''.'')) digits1)])"

subsection \<open>The pattern catalogue\<close>

text \<open>
  Each constant carries its Python pattern. All of them are compiled with
  \<^verbatim>\<open>re.IGNORECASE\<close> unless said otherwise, so their letters are \<open>ilit\<close>.

  \<^verbatim>\<open>NON_OPTICAL_RE = valid\s+only\s+(?:on|for)\s+optical\s+interface\.?\<close>
\<close>

definition NON_OPTICAL_RE :: rx where
  "NON_OPTICAL_RE = seqs [ilit ''valid'', sp1, ilit ''only'', sp1,
     Alt (ilit ''on'') (ilit ''for''), sp1, ilit ''optical'', sp1, ilit ''interface'',
     Opt (Ch (Lit CHR ''.''))]"

text \<open>\<^verbatim>\<open>ABSENT_RE = transceiver\s+(?:is\s+)?absent\.?\<close>\<close>

definition ABSENT_RE :: rx where
  "ABSENT_RE = seqs [ilit ''transceiver'', sp1, Opt (Seq (ilit ''is'') sp1), ilit ''absent'',
     Opt (Ch (Lit CHR ''.''))]"

text \<open>\<^verbatim>\<open>NOT_SUPPORT_RE = transceiver\s+(?:does\s+not\s+support|not\s+supported|unsupported)\<close>\<close>

definition NOT_SUPPORT_RE :: rx where
  "NOT_SUPPORT_RE = seqs [ilit ''transceiver'', sp1,
     Alt (seqs [ilit ''does'', sp1, ilit ''not'', sp1, ilit ''support''])
       (Alt (seqs [ilit ''not'', sp1, ilit ''supported'']) (ilit ''unsupported''))]"

text \<open>
  \<^verbatim>\<open>TRANSFER_DISTANCE_COPPER_RE =
    Transfer\s+Distance\(m\)\s*:\s*(?:\d+\s*)?\(\s*copper\s*\)\<close>
\<close>

definition TRANSFER_DISTANCE_COPPER_RE :: rx where
  "TRANSFER_DISTANCE_COPPER_RE = seqs [ilit ''Transfer'', sp1, ilit ''Distance(m)'', sp0,
     Ch (Lit CHR '':''), sp0, Opt (Seq digits1 sp0), Ch (Lit CHR ''(''), sp0, ilit ''copper'',
     sp0, Ch (Lit CHR '')'')]"

text \<open>
  \<^verbatim>\<open>PORT_RE = (?:^|\s)(?:Port\s+|interface\s+)?
    ([A-Za-z\-]+(?:Ethernet)?\d+(?:[\/\-]\d+)+[A-Za-z0-9\/\-]*)\<close>
\<close>

definition PORT_RE :: rx where
  "PORT_RE = seqs [Alt Bol (Ch Space),
     Opt (Alt (Seq (ilit ''Port'') sp1) (Seq (ilit ''interface'') sp1)),
     Grp 1 (seqs [Plus (Ch (Or Alpha (Lit CHR ''-''))), Opt (ilit ''Ethernet''), digits1,
       Plus (Seq (Ch (OneOf ''/-'')) digits1),
       Star (Ch (Or Alpha (Or Digit (OneOf ''/-''))))])]"

text \<open>
  \<^verbatim>\<open>TX_POWER_RE =
    (?:Current\s+)?(?:TX\s*Power|TxPower)(?:\s*\(dB[mM]\))?\s*[:=]?\s*(-?\d+(?:\.\d+)?)\<close>,
  and \<^verbatim>\<open>RX_POWER_RE\<close> with \<^verbatim>\<open>RX\<close>, \<^verbatim>\<open>RxPower\<close>.
\<close>

definition direct_power_re :: "string \<Rightarrow> rx" where
  "direct_power_re d = seqs [Opt (Seq (ilit ''Current'') sp1),
     Alt (seqs [ilit d, sp0, ilit ''Power'']) (Seq (ilit d) (ilit ''Power'')),
     Opt (seqs [sp0, ilit ''(dB'', Ch (OneOf ''mM''), Ch (Lit CHR '')'')]),
     sp0, Opt (Ch (OneOf '':='')), sp0, number 1]"

definition TX_POWER_RE :: rx where
  "TX_POWER_RE = direct_power_re ''TX''"

definition RX_POWER_RE :: rx where
  "RX_POWER_RE = direct_power_re ''RX''"

text \<open>
  \<^verbatim>\<open>H3C_TABLE_TX_RE = TX\s*power\s*\(dB[mM]\)\s*(-?\d+(?:\.\d+)?)\<close>, and
  \<^verbatim>\<open>H3C_TABLE_RX_RE\<close> with \<^verbatim>\<open>RX\<close>.
\<close>

definition h3c_table_re :: "string \<Rightarrow> rx" where
  "h3c_table_re d = seqs [ilit d, sp0, ilit ''power'', sp0, ilit ''(dB'', Ch (OneOf ''mM''),
     Ch (Lit CHR '')''), sp0, number 1]"

definition H3C_TABLE_TX_RE :: rx where
  "H3C_TABLE_TX_RE = h3c_table_re ''TX''"

definition H3C_TABLE_RX_RE :: rx where
  "H3C_TABLE_RX_RE = h3c_table_re ''RX''"

text \<open>\<^verbatim>\<open>POWER_VALUE_RE = (TX|RX|Tx|Rx)\s*Power\s*[:=]?\s*(-?\d+(?:\.\d+)?)\<close>\<close>

definition POWER_VALUE_RE :: rx where
  "POWER_VALUE_RE = seqs [
     Grp 1 (Alt (ilit ''TX'') (Alt (ilit ''RX'') (Alt (ilit ''Tx'') (ilit ''Rx'')))),
     sp0, ilit ''Power'', sp0, Opt (Ch (OneOf '':='')), sp0, number 2]"

text \<open>
  The command patterns.
  \<^verbatim>\<open>HUAWEI_DIAG_CMD_RE = H3C_DIAG_CMD_RE = display\s+transceiver\s+diagnosis\s+interface\b\<close>,
  \<^verbatim>\<open>HUAWEI_DIAG_DETAIL_CMD_RE = display\s+transceiver\s+diagnosis\s+interface\s+detail\b\<close>,
  \<^verbatim>\<open>HUAWEI_VERB_CMD_RE = H3C_VERB_CMD_RE = display\s+transceiver\s+verbose\b\<close>.
\<close>

definition display_transceiver :: rx where
  "display_transceiver = seqs [ilit ''display'', sp1, ilit ''transceiver'', sp1]"

definition HUAWEI_DIAG_CMD_RE :: rx where
  "HUAWEI_DIAG_CMD_RE = seqs [display_transceiver, ilit ''diagnosis'', sp1, ilit ''interface'', Wb]"

definition HUAWEI_DIAG_DETAIL_CMD_RE :: rx where
  "HUAWEI_DIAG_DETAIL_CMD_RE =
     seqs [display_transceiver, ilit ''diagnosis'', sp1, ilit ''interface'', sp1, ilit ''detail'', Wb]"

definition HUAWEI_VERB_CMD_RE :: rx where
  "HUAWEI_VERB_CMD_RE = seqs [display_transceiver, ilit ''verbose'', Wb]"

definition H3C_DIAG_CMD_RE :: rx where
  "H3C_DIAG_CMD_RE = seqs [display_transceiver, ilit ''diagnosis'', sp1, ilit ''interface'', Wb]"

definition H3C_VERB_CMD_RE :: rx where
  "H3C_VERB_CMD_RE = seqs [display_transceiver, ilit ''verbose'', Wb]"

text \<open>
  \<^verbatim>\<open>ALL_TRANSCEIVER_CMD_RE = (?:display\s+transceiver\s+
    (?:diagnosis\s+interface(?:\s+detail)?|verbose)|undo\s+screen-length\s+disable)\<close>
\<close>

definition ALL_TRANSCEIVER_CMD_RE :: rx where
  "ALL_TRANSCEIVER_CMD_RE =
     Alt (seqs [display_transceiver,
            Alt (seqs [ilit ''diagnosis'', sp1, ilit ''interface'', Opt (Seq sp1 (ilit ''detail''))])
                (ilit ''verbose'')])
         (seqs [ilit ''undo'', sp1, ilit ''screen-length'', sp1, ilit ''disable''])"

text \<open>
  \<^verbatim>\<open>RE_CURRENT_DIAG = ^Current diagnostic parameters:\<close> and
  \<^verbatim>\<open>RE_ALARM_THRESHOLDS = ^Alarm thresholds:\<close>; the blanks are literal blanks.
\<close>

definition RE_CURRENT_DIAG :: rx where
  "RE_CURRENT_DIAG = Seq Bol (ilit ''Current diagnostic parameters:'')"

definition RE_ALARM_THRESHOLDS :: rx where
  "RE_ALARM_THRESHOLDS = Seq Bol (ilit ''Alarm thresholds:'')"

text \<open>The pattern of the last step, written in place: \<^verbatim>\<open>status\s+(normal|abnormal)\<close>.\<close>

definition STATUS_RE :: rx where
  "STATUS_RE = seqs [ilit ''status'', sp1, Grp 1 (Alt (ilit ''normal'') (ilit ''abnormal''))]"

text \<open>
  The patterns of the device-name cascade. The prompt pattern, written in place and
  compiled without flags: \<^verbatim>\<open>[\[<]([\w\-]+)[\]>]\<close>;
  \<^verbatim>\<open>BRACKET_RE = [\[<](SD-(?:JN|JY)-[^\]>]+)[\]>]+\<close>;
  \<^verbatim>\<open>DEVICE_NAME_RE = Device\s+Name\s*:\s*(\S+)\<close>;
  \<^verbatim>\<open>SYSTEM_NAME_RE = System\s+Name\s*:\s*(\S+)\<close>.
\<close>

definition PROMPT_RE :: rx where
  "PROMPT_RE = seqs [Ch (OneOf ''[<''), Grp 1 (Plus (Ch (Or Word (Lit CHR ''-'')))),
     Ch (OneOf '']>'')]"

definition BRACKET_RE :: rx where
  "BRACKET_RE = seqs [Ch (OneOf ''[<''),
     Grp 1 (seqs [ilit ''SD-'', Alt (ilit ''JN'') (ilit ''JY''), Ch (Lit CHR ''-''),
                  Plus (Ch (NoneOf '']>''))]),
     Plus (Ch (OneOf '']>''))]"

definition DEVICE_NAME_RE :: rx where
  "DEVICE_NAME_RE = seqs [ilit ''Device'', sp1, ilit ''Name'', sp0, Ch (Lit CHR '':''), sp0,
     Grp 1 (Plus (Ch NonSpace))]"

definition SYSTEM_NAME_RE :: rx where
  "SYSTEM_NAME_RE = seqs [ilit ''System'', sp1, ilit ''Name'', sp0, Ch (Lit CHR '':''), sp0,
     Grp 1 (Plus (Ch NonSpace))]"

text \<open>
  The control sequences removed from each line before the cascade, compiled without
  flags: \<^verbatim>\<open>\x1b\[\d+[A-Za-z]|[\x07\x08]\<close>.
\<close>

definition CONTROL_RE :: rx where
  "CONTROL_RE = Alt (seqs [Ch (Lit (CHR 0x1B)), Ch (Lit CHR ''[''), digits1, Ch Alpha])
                    (Ch (OneOf [CHR 0x07, CHR 0x08]))"

subsection \<open>\<^verbatim>\<open>re.split(r'\s{2,}', line)\<close>\<close>

text \<open>
  The pieces between the leftmost, longest runs of two or more white-space characters;
  \<open>cur\<close> holds the piece being read, reversed. A single white-space character stays
  inside its piece.
\<close>

function split_ws2 :: "string \<Rightarrow> string \<Rightarrow> string list" where
  "split_ws2 cur [] = [rev cur]"
| "split_ws2 cur [c] = [rev (c # cur)]"
| "split_ws2 cur (c # d # cs) =
     (if is_space c \<and> is_space d then rev cur # split_ws2 [] (dropWhile is_space cs)
      else split_ws2 (c # cur) (d # cs))"
  by pat_completeness auto
termination
  by (relation "measure (\<lambda>(cur, s). length s)")
     (auto simp: less_Suc_eq_le intro: le_trans [OF length_dropWhile_le])

definition re_split_ws2 :: "string \<Rightarrow> string list" where
  "re_split_ws2 s = split_ws2 [] s"

text \<open>\<^verbatim>\<open>next(i for i, h in enumerate(hs) if P(h))\<close>; \<open>None\<close> is \<^verbatim>\<open>StopIteration\<close>.\<close>

fun first_index :: "('a \<Rightarrow> bool) \<Rightarrow> 'a list \<Rightarrow> nat option" where
  "first_index P [] = None"
| "first_index P (x # xs) = (if P x then Some 0 else map_option Suc (first_index P xs))"

subsection \<open>\<^verbatim>\<open>float(text)\<close>\<close>

text \<open>
  The result of \<^verbatim>\<open>float\<close> on a string: a finite binary64 number, given by its exact
  rational value, an infinity or a NaN. \<open>None\<close> is \<^verbatim>\<open>ValueError\<close>. The sign of a zero
  is not kept.
\<close>

datatype pyfloat = Finite rat | PosInf | NegInf | NaN

text \<open>
  CPython first maps a non-ASCII white-space character to a blank; any other character
  from 127 on makes the conversion fail. Then it strips the ASCII white space
  (\<^verbatim>\<open>Py_ISSPACE\<close>: 9-13 and 32) at both ends.
\<close>

definition is_py_space :: "char \<Rightarrow> bool" where
  "is_py_space c = (c \<in> set [CHR 0x09, CHR 0x0A, CHR 0x0B, CHR 0x0C, CHR 0x0D, CHR 0x20])"

definition float_chars :: "string \<Rightarrow> string option" where
  "float_chars s =
     (if list_all (\<lambda>c. (of_char c :: int) < 127 \<or> c = CHR 0x85 \<or> c = CHR 0xA0) s
      then Some (map (\<lambda>c. if c = CHR 0x85 \<or> c = CHR 0xA0 then CHR 0x20 else c) s)
      else None)"

definition float_strip :: "string \<Rightarrow> string" where
  "float_strip s = rev (dropWhile is_py_space (rev (dropWhile is_py_space s)))"

text \<open>
  An underscore is accepted only between two digits
  (\<^verbatim>\<open>_Py_string_to_number_with_underscores\<close>); \<open>prev\<close> is the character before.
\<close>

fun underscores_ok :: "char \<Rightarrow> string \<Rightarrow> bool" where
  "underscores_ok prev [] = (prev \<noteq> CHR ''_'')"
| "underscores_ok prev (c # cs) =
     ((if c = CHR ''_'' then is_digit prev else if prev = CHR ''_'' then is_digit c else True)
      \<and> underscores_ok c cs)"

definition digit_val :: "char \<Rightarrow> int" where
  "digit_val c = of_char c - 48"

definition digits_val :: "string \<Rightarrow> int" where
  "digits_val ds = foldl (\<lambda>a c. 10 * a + digit_val c) 0 ds"

text \<open>
  The decimal grammar of \<^verbatim>\<open>strtod\<close>: digits, an optional point and digits, at least one
  digit in all, an optional exponent with at least one digit. The result \<open>(m, k)\<close>
  stands for \<open>m * 10 ^ k\<close>. The whole string has to be consumed.
\<close>

definition parse_exponent :: "string \<Rightarrow> int option" where
  "parse_exponent r =
     (case r of
        [] \<Rightarrow> Some 0
      | e # t \<Rightarrow>
          if e = CHR ''e'' \<or> e = CHR ''E'' then
            (let neg = (case t of [] \<Rightarrow> False | c # _ \<Rightarrow> c = CHR ''-'');
                 ds = (case t of [] \<Rightarrow> [] | c # u \<Rightarrow> if c = CHR ''-'' \<or> c = CHR ''+'' then u else t)
             in if ds \<noteq> [] \<and> list_all is_digit ds
                then Some (if neg then - digits_val ds else digits_val ds) else None)
          else None)"

definition parse_decimal :: "string \<Rightarrow> (int \<times> int) option" where
  "parse_decimal s =
     (let ip = takeWhile is_digit s; r1 = dropWhile is_digit s;
          has_point = (case r1 of [] \<Rightarrow> False | c # _ \<Rightarrow> c = CHR ''.'');
          fp = (if has_point then takeWhile is_digit (tl r1) else []);
          r2 = (if has_point then dropWhile is_digit (tl r1) else r1)
      in if ip = [] \<and> fp = [] then None
         else (case parse_exponent r2 of
                 None \<Rightarrow> None
               | Some e \<Rightarrow> Some (digits_val (ip @ fp), e - int (length fp))))"

text \<open>
  Rounding to binary64, to nearest, ties to even, as CPython's correctly rounded
  \<^verbatim>\<open>strtod\<close> does. \<open>floor_log2 n d\<close> is the integer part of the binary logarithm of
  \<open>n / d\<close> for positive \<open>n\<close> and \<open>d\<close>; \<open>round_half_even n d\<close> rounds \<open>n / d\<close> to an
  integer; \<open>nearest_double n d\<close> rounds the non-negative \<open>n / d\<close>: the exponent is
  at least -1022 (below that the numbers are subnormal), the significand has 53 bits,
  and a result of \<open>2 ^ 1024\<close> or more is infinite.
\<close>

definition floor_log2 :: "int \<Rightarrow> int \<Rightarrow> int" where
  "floor_log2 n d =
     (let k = bitlen n - bitlen d
      in if (if 0 \<le> k then d * 2 ^ nat k \<le> n else d \<le> n * 2 ^ nat (- k)) then k else k - 1)"

definition round_half_even :: "int \<Rightarrow> int \<Rightarrow> int" where
  "round_half_even n d =
     (let q = n div d; r = n mod d
      in if 2 * r < d then q else if d < 2 * r then q + 1 else if even q then q else q + 1)"

definition nearest_double :: "int \<Rightarrow> int \<Rightarrow> pyfloat" where
  "nearest_double n d =
     (if n = 0 then Finite 0
      else
        (let qe = max (floor_log2 n d) (- 1022) - 52
         in if 0 \<le> qe
            then (let m = round_half_even n (d * 2 ^ nat qe)
                  in if 2 ^ 1024 \<le> m * 2 ^ nat qe then PosInf
                     else Finite (of_int (m * 2 ^ nat qe)))
            else Finite (of_int (round_half_even (n * 2 ^ nat (- qe)) d) / of_int (2 ^ nat (- qe)))))"

definition negate :: "pyfloat \<Rightarrow> pyfloat" where
  "negate f = (case f of Finite v \<Rightarrow> Finite (- v) | PosInf \<Rightarrow> NegInf | NegInf \<Rightarrow> PosInf | NaN \<Rightarrow> NaN)"

definition parse_unsigned :: "string \<Rightarrow> pyfloat option" where
  "parse_unsigned s =
     (if map lower s = ''inf'' \<or> map lower s = ''infinity'' then Some PosInf
      else if map lower s = ''nan'' then Some NaN
      else (case parse_decimal s of
              None \<Rightarrow> None
            | Some (m, k) \<Rightarrow>
                Some (if 0 \<le> k then nearest_double (m * 10 ^ nat k) 1
                      else nearest_double m (10 ^ nat (- k)))))"

definition py_float :: "string \<Rightarrow> pyfloat option" where
  "py_float s =
     (case float_chars s of
        None \<Rightarrow> None
      | Some a \<Rightarrow>
          (let t = float_strip a
           in if \<not> underscores_ok (CHR 0x00) t then None
              else (case filter (\<lambda>c. c \<noteq> CHR ''_'') t of
                      [] \<Rightarrow> None
                    | c # u \<Rightarrow>
                        if c = CHR ''-'' then map_option negate (parse_unsigned u)
                        else if c = CHR ''+'' then parse_unsigned u
                        else parse_unsigned (c # u))))"

text \<open>
  The block repeated for every candidate value,
  \<^verbatim>\<open>try: val = float(text); if -50 <= val <= 10: field = val; except ...: pass\<close>:
  \<open>checked text old\<close> is the field afterwards. A comparison with a NaN is false.
\<close>

definition in_range :: "pyfloat \<Rightarrow> bool" where
  "in_range f = (case f of Finite v \<Rightarrow> - 50 \<le> v \<and> v \<le> 10 | _ \<Rightarrow> False)"

definition checked :: "string \<Rightarrow> rat option \<Rightarrow> rat option" where
  "checked str old =
     (case py_float str of
        Some (Finite v) \<Rightarrow> if - 50 \<le> v \<and> v \<le> 10 then Some v else old
      | _ \<Rightarrow> old)"

subsection \<open>The scanner state and the output record\<close>

text \<open>
  The values of the variable \<^verbatim>\<open>status\<close>. The source holds strings: \<^verbatim>\<open>'unknown'\<close>,
  four fixed labels (each with a Chinese gloss in brackets), and, from the last step, the
  text captured by \<^verbatim>\<open>status\s+(normal|abnormal)\<close>, which is never \<^verbatim>\<open>'unknown'\<close>.
\<close>

datatype port_status = Unknown | Non_optical | Absent | Not_supported | Copper_port | Reported string

text \<open>
  The variables that \<^verbatim>\<open>save_port\<close> declares \<^verbatim>\<open>nonlocal\<close>. \<^verbatim>\<open>parsing_power_data\<close> is a
  local of \<^verbatim>\<open>extract_power_info\<close> that is assigned, never read, and unbound (\<open>None\<close>)
  until its first assignment.
\<close>

record scan_context =
  current_port :: "string option"
  tx_power :: "rat option"
  rx_power :: "rat option"
  status :: port_status
  is_optical_port :: bool
  command_type :: string
  table_header_found :: bool
  rx_power_col_idx :: "nat option"
  tx_power_col_idx :: "nat option"
  parsing_power_data :: "bool option"

text \<open>The dictionary appended to \<^verbatim>\<open>power_info\<close>.\<close>

record port_record =
  Vendor :: string
  NetworkType :: string
  Device :: string
  Port :: string
  TX_Power :: "rat option"
  RX_Power :: "rat option"
  Status :: port_status
  CommandType :: string
  LogFileName :: string

text \<open>What is fixed while one file is processed.\<close>

record file_env =
  vendor :: string
  network_type :: string
  device :: string
  log_file_name :: string

text \<open>The assignments at the start of every segment; \<open>ppd\<close> is \<^verbatim>\<open>parsing_power_data\<close> then.\<close>

definition initial_context :: "bool option \<Rightarrow> scan_context" where
  "initial_context ppd =
     \<lparr>current_port = None, tx_power = None, rx_power = None, status = Unknown,
      is_optical_port = False, command_type = ''unknown'', table_header_found = False,
      rx_power_col_idx = None, tx_power_col_idx = None, parsing_power_data = ppd\<rparr>"

text \<open>
  \<^verbatim>\<open>save_port()\<close>: the records it appends to \<^verbatim>\<open>power_info\<close> (none or one) and the state
  it leaves. \<^verbatim>\<open>if current_port and (...)\<close> tests that the port is neither \<^verbatim>\<open>None\<close> nor
  the empty string.
\<close>

definition save_port :: "file_env \<Rightarrow> scan_context \<Rightarrow> port_record list \<times> scan_context" where
  "save_port env s =
     ((case current_port s of
         None \<Rightarrow> []
       | Some p \<Rightarrow>
           if p \<noteq> [] \<and> (tx_power s \<noteq> None \<or> rx_power s \<noteq> None \<or> status s \<noteq> Unknown)
           then [\<lparr>Vendor = vendor env, NetworkType = network_type env, Device = device env,
                  Port = p, TX_Power = tx_power s, RX_Power = rx_power s, Status = status s,
                  CommandType = command_type s, LogFileName = log_file_name env\<rparr>]
           else []),
      \<lparr>current_port = None, tx_power = None, rx_power = None, status = Unknown,
       is_optical_port = False, command_type = ''unknown'', table_header_found = False,
       rx_power_col_idx = None, tx_power_col_idx = None, parsing_power_data = Some False\<rparr>)"

subsection \<open>The steps of the loop body\<close>

text \<open>The command type: \<open>old\<close> stays when nothing matches or the vendor is another one.\<close>

definition detect_command_type :: "string \<Rightarrow> string \<Rightarrow> string \<Rightarrow> string" where
  "detect_command_type v line old =
     (if v = ''Huawei'' then
        (if matches HUAWEI_DIAG_CMD_RE line then ''huawei_diag''
         else if matches HUAWEI_DIAG_DETAIL_CMD_RE line then ''huawei_diag_detail''
         else if matches HUAWEI_VERB_CMD_RE line then ''huawei_verb''
         else old)
      else if v = ''H3C'' then
        (if matches H3C_DIAG_CMD_RE line then ''h3c_diag''
         else if matches H3C_VERB_CMD_RE line then ''h3c_verb''
         else old)
      else old)"

text \<open>\<^verbatim>\<open>vendor in ('H3C', 'Huawei')\<close>\<close>

definition known_vendor :: "string \<Rightarrow> bool" where
  "known_vendor v = (v = ''H3C'' \<or> v = ''Huawei'')"

text \<open>The test of the table header.\<close>

definition is_table_header :: "string \<Rightarrow> string \<Rightarrow> bool" where
  "is_table_header v line =
     (known_vendor v \<and> contains ''Temp.'' line \<and> contains ''Voltage'' line \<and>
      contains ''RX power'' line \<and> contains ''TX power'' line)"

text \<open>
  The header: both column indices, or neither when one \<^verbatim>\<open>next(...)\<close> raises
  \<^verbatim>\<open>StopIteration\<close>.
\<close>

definition header_step :: "string \<Rightarrow> scan_context \<Rightarrow> scan_context" where
  "header_step line s =
     (let headers = re_split_ws2 (strip line);
          rx = first_index (contains ''RX power'') headers;
          tx = first_index (contains ''TX power'') headers
      in if rx = None \<or> tx = None
         then s\<lparr>table_header_found := True, rx_power_col_idx := None, tx_power_col_idx := None\<rparr>
         else s\<lparr>table_header_found := True, rx_power_col_idx := rx, tx_power_col_idx := tx\<rparr>)"

text \<open>The value of one column of the data row, when the index is set and in range.\<close>

definition column_power :: "nat option \<Rightarrow> string list \<Rightarrow> rat option \<Rightarrow> rat option" where
  "column_power idx columns old =
     (case idx of
        None \<Rightarrow> old
      | Some i \<Rightarrow> if i < length columns then checked (columns ! i) old else old)"

definition table_row_step :: "string \<Rightarrow> scan_context \<Rightarrow> scan_context" where
  "table_row_step line s =
     (let columns = re_split_ws2 (strip line)
      in s\<lparr>rx_power := column_power (rx_power_col_idx s) columns (rx_power s),
           tx_power := column_power (tx_power_col_idx s) columns (tx_power s),
           table_header_found := False\<rparr>)"

text \<open>
  A pattern whose group \<open>n\<close> is the number: the field after
  \<^verbatim>\<open>m = P.search(line); if m: try: val = float(m.group(n)) ...\<close>. In every pattern used
  here the group takes part in each match, so \<^verbatim>\<open>m.group(n)\<close> is a string.
\<close>

definition captured_power :: "rx \<Rightarrow> nat \<Rightarrow> string \<Rightarrow> rat option \<Rightarrow> rat option" where
  "captured_power r n line old =
     (case re_search r line of
        None \<Rightarrow> old
      | Some m \<Rightarrow> (case match_group m n of None \<Rightarrow> old | Some str \<Rightarrow> checked str old))"

text \<open>
  The fallback, tried only while the field is \<^verbatim>\<open>None\<close>: \<open>d\<close> is \<^verbatim>\<open>'tx'\<close> or \<^verbatim>\<open>'rx'\<close>,
  compared with \<^verbatim>\<open>pm.group(1).lower()\<close>.
\<close>

definition fallback_power :: "string \<Rightarrow> string \<Rightarrow> rat option \<Rightarrow> rat option" where
  "fallback_power d line old =
     (if old = None then
        (case re_search POWER_VALUE_RE line of
           None \<Rightarrow> old
         | Some m \<Rightarrow>
             if map_option (map lower) (match_group m 1) = Some d
             then (case match_group m 2 of None \<Rightarrow> old | Some str \<Rightarrow> checked str old)
             else old)
      else old)"

definition reported_status :: "string \<Rightarrow> port_status \<Rightarrow> port_status" where
  "reported_status line old =
     (case re_search STATUS_RE line of
        None \<Rightarrow> old
      | Some m \<Rightarrow> (case match_group m 1 of None \<Rightarrow> old | Some g \<Rightarrow> Reported g))"

text \<open>
  The tail of the loop body, reached by a line of an optical port that no earlier test
  has taken: the direct patterns, the H3C patterns, the fallback, the status token, in
  this order, none of them ending the iteration.
\<close>

definition value_steps :: "string \<Rightarrow> string \<Rightarrow> scan_context \<Rightarrow> scan_context" where
  "value_steps v line s =
     (let tx1 = captured_power TX_POWER_RE 1 line (tx_power s);
          rx1 = captured_power RX_POWER_RE 1 line (rx_power s);
          tx2 = (if v = ''H3C'' then captured_power H3C_TABLE_TX_RE 1 line tx1 else tx1);
          rx2 = (if v = ''H3C'' then captured_power H3C_TABLE_RX_RE 1 line rx1 else rx1);
          tx3 = fallback_power ''tx'' line tx2;
          rx3 = fallback_power ''rx'' line rx2
      in s\<lparr>tx_power := tx3, rx_power := rx3, status := reported_status line (status s)\<rparr>)"

text \<open>
  One iteration of \<^verbatim>\<open>for line in segment\<close>: the records appended and the state
  afterwards. Every \<^verbatim>\<open>continue\<close> of the source ends one branch here.
\<close>

definition process_line :: "file_env \<Rightarrow> string \<Rightarrow> scan_context \<Rightarrow> port_record list \<times> scan_context" where
  "process_line env raw s0 =
     (let line = strip raw;
          s = s0\<lparr>command_type := detect_command_type (vendor env) line (command_type s0)\<rparr>
      in case re_search PORT_RE line of
           Some m \<Rightarrow>
             (fst (save_port env s),
              (snd (save_port env s))\<lparr>current_port := match_group m 1, is_optical_port := True,
                                       status := Unknown\<rparr>)
         | None \<Rightarrow>
             ([],
              if matches NON_OPTICAL_RE line
              then s\<lparr>status := Non_optical, is_optical_port := False\<rparr>
              else if matches ABSENT_RE line
              then s\<lparr>status := Absent, is_optical_port := False\<rparr>
              else if matches NOT_SUPPORT_RE line
              then s\<lparr>status := Not_supported, is_optical_port := False\<rparr>
              else if current_port s \<noteq> None \<and> matches TRANSFER_DISTANCE_COPPER_RE line
              then s\<lparr>status := Copper_port, is_optical_port := False\<rparr>
              else if \<not> is_optical_port s then s
              else if known_vendor (vendor env) \<and> matches RE_CURRENT_DIAG line
              then s\<lparr>parsing_power_data := Some True\<rparr>
              else if known_vendor (vendor env) \<and> matches RE_ALARM_THRESHOLDS line
              then s\<lparr>parsing_power_data := Some False, table_header_found := False\<rparr>
              else if is_table_header (vendor env) line then header_step line s
              else if table_header_found s then table_row_step line s
              else value_steps (vendor env) line s))"

text \<open>The loop over the lines of a segment, from state \<open>s\<close>.\<close>

fun scan_lines :: "file_env \<Rightarrow> string list \<Rightarrow> scan_context \<Rightarrow> port_record list \<times> scan_context" where
  "scan_lines env [] s = ([], s)"
| "scan_lines env (l # ls) s =
     (case process_line env l s of
        (out1, s1) \<Rightarrow> (case scan_lines env ls s1 of (out2, s2) \<Rightarrow> (out1 @ out2, s2)))"

text \<open>
  One segment: the initial assignments, the loop, and the final \<^verbatim>\<open>save_port()\<close>. The
  second component is \<^verbatim>\<open>parsing_power_data\<close> afterwards, which the next segment
  inherits.
\<close>

definition scan_segment :: "file_env \<Rightarrow> bool option \<Rightarrow> string list \<Rightarrow> port_record list \<times> bool option" where
  "scan_segment env ppd seg =
     (case scan_lines env seg (initial_context ppd) of
        (out, s) \<Rightarrow> (out @ fst (save_port env s), parsing_power_data (snd (save_port env s))))"

subsection \<open>Device name, segmentation, and the whole function\<close>

text \<open>
  \<^verbatim>\<open>re.sub(CONTROL, '', ln)\<close>: every match is removed, from left to right; the
  pattern matches no empty string. \<^verbatim>\<open>'\n'.join(...)\<close> puts a line feed between the
  cleaned lines.
\<close>

function remove_control :: "char option \<Rightarrow> string \<Rightarrow> string" where
  "remove_control p [] = []"
| "remove_control p (c # cs) =
     (case ms CONTROL_RE (p, c # cs, []) of
        [] \<Rightarrow> c # remove_control (Some c) cs
      | (p', s', _) # _ \<Rightarrow>
          if length s' < length (c # cs) then remove_control p' s'
          else c # remove_control (Some c) cs)"
  by pat_completeness auto
termination
  by (relation "measure (\<lambda>(p, s). length s)") auto

fun join_lines :: "string list \<Rightarrow> string" where
  "join_lines [] = []"
| "join_lines [l] = l"
| "join_lines (l # k # ls) = l @ CHR 0x0A # join_lines (k # ls)"

definition clean_text :: "string list \<Rightarrow> string" where
  "clean_text lines = join_lines (map (remove_control None) lines)"

text \<open>
  The cascade: the prompt pattern, \<^verbatim>\<open>BRACKET_RE\<close>, \<^verbatim>\<open>DEVICE_NAME_RE\<close>,
  \<^verbatim>\<open>SYSTEM_NAME_RE\<close>, and \<^verbatim>\<open>os.path.basename(fp)\<close>, here \<open>base\<close>, when none matches.
  In each pattern group 1 takes part in every match.
\<close>

definition first_group :: "rx \<Rightarrow> string \<Rightarrow> string option" where
  "first_group r str = (case re_search r str of None \<Rightarrow> None | Some m \<Rightarrow> match_group m 1)"

definition resolve_device :: "string \<Rightarrow> string \<Rightarrow> string" where
  "resolve_device str base =
     (case first_group PROMPT_RE str of
        Some d \<Rightarrow> d
      | None \<Rightarrow>
        (case first_group BRACKET_RE str of
           Some d \<Rightarrow> d
         | None \<Rightarrow>
           (case first_group DEVICE_NAME_RE str of
              Some d \<Rightarrow> d
            | None \<Rightarrow>
              (case first_group SYSTEM_NAME_RE str of
                 Some d \<Rightarrow> d
               | None \<Rightarrow> base))))"

text \<open>The indices of the command lines and the slices \<^verbatim>\<open>lines[start:end]\<close> between them.\<close>

definition cmd_indices :: "string list \<Rightarrow> nat list" where
  "cmd_indices lines =
     filter (\<lambda>i. matches ALL_TRANSCEIVER_CMD_RE (lines ! i)) [0 ..< length lines]"

definition segments :: "string list \<Rightarrow> nat list \<Rightarrow> string list list" where
  "segments lines idx =
     map (\<lambda>(start, end). take (end - start) (drop start lines))
       (zip (idx @ [length lines]) (tl (idx @ [length lines])))"

text \<open>
  \<^verbatim>\<open>extract_power_info(fp, vendor, network_type)\<close> on a file with these lines and base
  name: the list \<^verbatim>\<open>power_info\<close> it returns.
\<close>

definition scan_segments :: "file_env \<Rightarrow> string list list \<Rightarrow> port_record list" where
  "scan_segments env segs =
     fst (foldl (\<lambda>(out, ppd) seg. case scan_segment env ppd seg of (o2, ppd2) \<Rightarrow> (out @ o2, ppd2))
            ([], None) segs)"

definition extract_power_info :: "string list \<Rightarrow> string \<Rightarrow> string \<Rightarrow> string \<Rightarrow> port_record list" where
  "extract_power_info lines base v nt =
     (let env = \<lparr>vendor = v, network_type = nt,
                 device = resolve_device (clean_text lines) base, log_file_name = base\<rparr>;
          idx = cmd_indices lines
      in if idx = [] then [] else scan_segments env (segments lines idx))"

subsection \<open>Predicates used in the statements\<close>

text \<open>
  The state after the command-type test at the head of the loop body, which every line
  passes first.
\<close>

definition with_command_type :: "file_env \<Rightarrow> string \<Rightarrow> scan_context \<Rightarrow> scan_context" where
  "with_command_type env raw s =
     s\<lparr>command_type := detect_command_type (vendor env) (strip raw) (command_type s)\<rparr>"

text \<open>The state in which an interface-name line leaves the scanner, for the port \<open>p\<close>.\<close>

definition opened :: "string option \<Rightarrow> scan_context" where
  "opened p =
     \<lparr>current_port = p, tx_power = None, rx_power = None, status = Unknown,
      is_optical_port = True, command_type = ''unknown'', table_header_found = False,
      rx_power_col_idx = None, tx_power_col_idx = None, parsing_power_data = Some False\<rparr>"

text \<open>
  A line that one of the four status tests takes: non-optical, absent, not supported, or,
  with a port open, copper.
\<close>

definition marker_line :: "scan_context \<Rightarrow> string \<Rightarrow> bool" where
  "marker_line s raw =
     (matches NON_OPTICAL_RE (strip raw) \<or> matches ABSENT_RE (strip raw) \<or>
      matches NOT_SUPPORT_RE (strip raw) \<or>
      (current_port s \<noteq> None \<and> matches TRANSFER_DISTANCE_COPPER_RE (strip raw)))"

text \<open>A line that one of the two block tests takes.\<close>

definition block_marker :: "string \<Rightarrow> string \<Rightarrow> bool" where
  "block_marker v raw =
     (known_vendor v \<and>
      (matches RE_CURRENT_DIAG (strip raw) \<or> matches RE_ALARM_THRESHOLDS (strip raw)))"

text \<open>
  A line of an optical port that reaches the table-header test: no interface name,
  no status marker, no block marker.
\<close>

definition passes_markers :: "file_env \<Rightarrow> scan_context \<Rightarrow> string \<Rightarrow> bool" where
  "passes_markers env s raw =
     (re_search PORT_RE (strip raw) = None \<and> \<not> marker_line s raw \<and> is_optical_port s \<and>
      \<not> block_marker (vendor env) raw)"

definition not_applicable :: "port_status \<Rightarrow> bool" where
  "not_applicable st = (st = Non_optical \<or> st = Absent \<or> st = Not_supported \<or> st = Copper_port)"

text \<open>A power field is absent or lies in the closed interval from -50 to 10.\<close>

definition power_ok :: "rat option \<Rightarrow> bool" where
  "power_ok p = (case p of None \<Rightarrow> True | Some x \<Rightarrow> - 50 \<le> x \<and> x \<le> 10)"

definition context_ok :: "scan_context \<Rightarrow> bool" where
  "context_ok s = (power_ok (tx_power s) \<and> power_ok (rx_power s))"

definition record_ok :: "port_record \<Rightarrow> bool" where
  "record_ok r = (power_ok (TX_Power r) \<and> power_ok (RX_Power r))"

text \<open>A field after a step: what it was, or a value of the interval.\<close>

definition kept_or_valid :: "rat option \<Rightarrow> rat option \<Rightarrow> bool" where
  "kept_or_valid old new = (new = old \<or> (\<exists>x. new = Some x \<and> - 50 \<le> x \<and> x \<le> 10))"

text \<open>A record says something about its port.\<close>

definition informative :: "port_record \<Rightarrow> bool" where
  "informative r =
     (Port r \<noteq> [] \<and> (TX_Power r \<noteq> None \<or> RX_Power r \<noteq> None \<or> Status r \<noteq> Unknown))"

subsection \<open>Example inputs\<close>

definition h3c_env :: file_env where
  "h3c_env = \<lparr>vendor = ''H3C'', network_type = ''LAN'', device = ''SW1'',
               log_file_name = ''sw1.log''\<rparr>"

definition huawei_env :: file_env where
  "huawei_env = \<lparr>vendor = ''Huawei'', network_type = ''LAN'', device = ''SW1'',
                  log_file_name = ''sw1.log''\<rparr>"

text \<open>Port \<^verbatim>\<open>GE1/0/1\<close> open, with and without readings, and marked absent.\<close>

definition port_open :: scan_context where
  "port_open = opened (Some ''GE1/0/1'')"

definition port_read :: scan_context where
  "port_read = (opened (Some ''GE1/0/1''))\<lparr>tx_power := Some (- 9 / 4), rx_power := Some (- 11 / 2)\<rparr>"

definition port_absent :: scan_context where
  "port_absent = (opened (Some ''GE1/0/1''))\<lparr>status := Absent, is_optical_port := False\<rparr>"

text \<open>
  The states of an H3C diagnosis segment, line by line: the command line, the interface
  line, the marker of the current readings, their table header and data row, the marker
  of the alarm thresholds, their table header and first data row.
\<close>

definition diagnosis_segment :: "string list" where
  "diagnosis_segment =
     [''display transceiver diagnosis interface'',
      ''GE1/0/1 transceiver diagnostic information:'',
      ''Current diagnostic parameters:'',
      ''Temp.(C)  Voltage(V)  Bias(mA)  RX power(dBm)  TX power(dBm)'',
      ''36  3.31  6.13  -5.50  -2.25'',
      ''Alarm thresholds:'',
      ''Temp.(C)  Voltage(V)  Bias(mA)  RX power(dBm)  TX power(dBm)'',
      ''50  3.55  1.44  -10.00  5.00'']"

definition after_command :: scan_context where
  "after_command = (initial_context None)\<lparr>command_type := ''h3c_diag''\<rparr>"

definition after_diag_marker :: scan_context where
  "after_diag_marker = (opened (Some ''GE1/0/1''))\<lparr>parsing_power_data := Some True\<rparr>"

definition after_diag_header :: scan_context where
  "after_diag_header =
     after_diag_marker\<lparr>table_header_found := True, rx_power_col_idx := Some 3,
                        tx_power_col_idx := Some 4\<rparr>"

definition after_diag_row :: scan_context where
  "after_diag_row =
     after_diag_header\<lparr>rx_power := Some (- 11 / 2), tx_power := Some (- 9 / 4),
                        table_header_found := False\<rparr>"

definition after_alarm_marker :: scan_context where
  "after_alarm_marker = after_diag_row\<lparr>parsing_power_data := Some False\<rparr>"

definition after_alarm_header :: scan_context where
  "after_alarm_header = after_alarm_marker\<lparr>table_header_found := True\<rparr>"

definition after_alarm_row :: scan_context where
  "after_alarm_row =
     after_alarm_header\<lparr>rx_power := Some (- 10), tx_power := Some 5,
                         table_header_found := False\<rparr>"

definition record_of :: "scan_context \<Rightarrow> port_record" where
  "record_of s =
     \<lparr>Vendor = ''H3C'', NetworkType = ''LAN'', Device = ''SW1'', Port = ''GE1/0/1'',
      TX_Power = tx_power s, RX_Power = rx_power s, Status = status s,
      CommandType = command_type s, LogFileName = ''sw1.log''\<rparr>"

section \<open>Evaluation of the character classes\<close>

text \<open>
  The classes on the eight bits of a character, least significant first, as code
  equations: they agree with the definitions above on all 256 characters and let the
  model be evaluated inside the logic.
\<close>

lemma is_digit_code [code]:
  "is_digit (Char b0 b1 b2 b3 b4 b5 b6 b7) =
     (b4 \<and> b5 \<and> \<not> b6 \<and> \<not> b7 \<and> (if b3 then \<not> b1 \<and> \<not> b2 else True))"
  unfolding is_digit_def
  by (cases b0; cases b1; cases b2; cases b3; cases b4; cases b5; cases b6; cases b7; simp)

lemma is_space_code [code]:
  "is_space (Char b0 b1 b2 b3 b4 b5 b6 b7) =
     (if b7 then \<not> b6 \<and> \<not> b4 \<and> \<not> b3 \<and> \<not> b1 \<and> (if b5 then \<not> b2 \<and> \<not> b0 else b2 \<and> b0)
      else \<not> b6 \<and>
        (if b5 then \<not> b4 \<and> \<not> b3 \<and> \<not> b2 \<and> \<not> b1 \<and> \<not> b0
         else if b4 then b3 \<and> b2
         else b3 \<and> (if b2 then \<not> b1 else b1 \<or> b0)))"
  unfolding is_space_def
  by (cases b0; cases b1; cases b2; cases b3; cases b4; cases b5; cases b6; cases b7; simp)

lemma is_upper_code [code]:
  "is_upper (Char b0 b1 b2 b3 b4 b5 b6 b7) =
     (\<not> b7 \<and> b6 \<and> \<not> b5 \<and>
      (if b4 then (if b3 then \<not> b2 \<and> (if b1 then \<not> b0 else True) else True)
       else b3 \<or> b2 \<or> b1 \<or> b0))"
  unfolding is_upper_def
  by (cases b0; cases b1; cases b2; cases b3; cases b4; cases b5; cases b6; cases b7; simp)

lemma is_lower_code [code]:
  "is_lower (Char b0 b1 b2 b3 b4 b5 b6 b7) =
     (\<not> b7 \<and> b6 \<and> b5 \<and>
      (if b4 then (if b3 then \<not> b2 \<and> (if b1 then \<not> b0 else True) else True)
       else b3 \<or> b2 \<or> b1 \<or> b0))"
  unfolding is_lower_def
  by (cases b0; cases b1; cases b2; cases b3; cases b4; cases b5; cases b6; cases b7; simp)

lemma is_word_code [code]:
  "is_word (Char b0 b1 b2 b3 b4 b5 b6 b7) =
     (if b7 then
        (if b6 then \<not> (b4 \<and> \<not> b3 \<and> b2 \<and> b1 \<and> b0)
         else b5 \<and>
           (if b4 then
              (if b3 then (if b2 then \<not> (b1 \<and> b0) else b1 \<noteq> b0)
               else (if b2 then \<not> b1 \<and> b0 else b1))
            else b3 \<and> \<not> b2 \<and> b1 \<and> \<not> b0))
      else is_digit (Char b0 b1 b2 b3 b4 b5 b6 b7) \<or> is_upper (Char b0 b1 b2 b3 b4 b5 b6 b7)
        \<or> is_lower (Char b0 b1 b2 b3 b4 b5 b6 b7) \<or> (b6 \<and> \<not> b5 \<and> b4 \<and> b3 \<and> b2 \<and> b1 \<and> b0))"
  unfolding is_word_def is_ascii_alpha_def is_digit_def is_upper_def is_lower_def
  by (cases b0; cases b1; cases b2; cases b3; cases b4; cases b5; cases b6; cases b7; simp)

lemma digit_val_code [code]:
  "digit_val (Char b0 b1 b2 b3 b4 b5 b6 b7) =
     (if b0 then 1 else 0) + (if b1 then 2 else 0) + (if b2 then 4 else 0) + (if b3 then 8 else 0)
     + (if b4 then 16 else 0) + (if b5 then 32 else 0) + (if b6 then 64 else 0)
     + (if b7 then 128 else 0) - 48"
  unfolding digit_val_def
  by (cases b0; cases b1; cases b2; cases b3; cases b4; cases b5; cases b6; cases b7; simp)

section \<open>Properties of the steps\<close>

subsection \<open>An interface-name line, and lines of a port that is not optical\<close>

lemma process_line_port:
  "re_search PORT_RE (strip raw) = Some m \<Longrightarrow>
   process_line env raw s = (fst (save_port env (with_command_type env raw s)), opened (match_group m 1))"
  by (simp add: process_line_def Let_def save_port_def opened_def with_command_type_def)

lemma save_port_records:
  "r \<in> set (fst (save_port env s)) \<Longrightarrow>
   Some (Port r) = current_port s \<and> TX_Power r = tx_power s \<and> RX_Power r = rx_power s \<and>
   Status r = status s \<and> CommandType r = command_type s"
  by (auto simp: save_port_def split: option.splits if_splits)

lemma save_port_length: "length (fst (save_port env s)) \<le> 1"
  by (simp add: save_port_def split: option.splits)

lemma process_line_no_port_out:
  "re_search PORT_RE (strip raw) = None \<Longrightarrow> fst (process_line env raw s) = []"
  by (simp add: process_line_def Let_def)

lemma process_line_non_optical:
  assumes "re_search PORT_RE (strip raw) = None" "\<not> is_optical_port s"
  shows "tx_power (snd (process_line env raw s)) = tx_power s"
    and "rx_power (snd (process_line env raw s)) = rx_power s"
    and "\<not> is_optical_port (snd (process_line env raw s))"
    and "current_port (snd (process_line env raw s)) = current_port s"
    and "status s \<in> {Non_optical, Absent, Not_supported, Copper_port} \<Longrightarrow>
         status (snd (process_line env raw s)) \<in> {Non_optical, Absent, Not_supported, Copper_port}"
  using assms by (simp_all add: process_line_def Let_def)

lemma process_line_marker:
  assumes "re_search PORT_RE (strip raw) = None" "marker_line s raw"
  shows "tx_power (snd (process_line env raw s)) = tx_power s"
    and "rx_power (snd (process_line env raw s)) = rx_power s"
    and "\<not> is_optical_port (snd (process_line env raw s))"
    and "current_port (snd (process_line env raw s)) = current_port s"
    and "status (snd (process_line env raw s)) \<in> {Non_optical, Absent, Not_supported, Copper_port}"
  using assms by (auto simp add: process_line_def Let_def marker_line_def)

lemma scan_lines_non_optical:
  assumes "\<forall>l \<in> set ls. re_search PORT_RE (strip l) = None" "\<not> is_optical_port s"
  shows "fst (scan_lines env ls s) = [] \<and>
         tx_power (snd (scan_lines env ls s)) = tx_power s \<and>
         rx_power (snd (scan_lines env ls s)) = rx_power s \<and>
         \<not> is_optical_port (snd (scan_lines env ls s)) \<and>
         current_port (snd (scan_lines env ls s)) = current_port s \<and>
         (status s \<in> {Non_optical, Absent, Not_supported, Copper_port} \<longrightarrow>
          status (snd (scan_lines env ls s)) \<in> {Non_optical, Absent, Not_supported, Copper_port})"
  using assms
proof (induction ls arbitrary: s)
  case Nil
  then show ?case by simp
next
  case (Cons l ls)
  let ?s1 = "snd (process_line env l s)"
  have np: "re_search PORT_RE (strip l) = None" using Cons.prems by simp
  have out: "fst (process_line env l s) = []" by (rule process_line_no_port_out [OF np])
  note st = process_line_non_optical [OF np Cons.prems(2), of env]
  have ih: "fst (scan_lines env ls ?s1) = [] \<and>
         tx_power (snd (scan_lines env ls ?s1)) = tx_power ?s1 \<and>
         rx_power (snd (scan_lines env ls ?s1)) = rx_power ?s1 \<and>
         \<not> is_optical_port (snd (scan_lines env ls ?s1)) \<and>
         current_port (snd (scan_lines env ls ?s1)) = current_port ?s1 \<and>
         (status ?s1 \<in> {Non_optical, Absent, Not_supported, Copper_port} \<longrightarrow>
          status (snd (scan_lines env ls ?s1)) \<in> {Non_optical, Absent, Not_supported, Copper_port})"
    using Cons.IH [of ?s1] Cons.prems st(3) by simp
  show ?case using out st ih
    by (auto simp add: split_beta)
qed

subsection \<open>The interval of the power values\<close>

lemma checked_cases:
  "checked t old = old \<or> (\<exists>x. checked t old = Some x \<and> - 50 \<le> x \<and> x \<le> 10)"
  by (auto simp: checked_def split: option.splits pyfloat.splits)

lemma checked_ok: "power_ok old \<Longrightarrow> power_ok (checked t old)"
  using checked_cases [of t old] by (auto simp: power_ok_def)

lemma captured_power_cases:
  "captured_power r n line old = old \<or>
   (\<exists>x. captured_power r n line old = Some x \<and> - 50 \<le> x \<and> x \<le> 10)"
  using checked_cases by (auto simp: captured_power_def split: option.splits)

lemma fallback_power_cases:
  "fallback_power d line old = old \<or>
   (\<exists>x. fallback_power d line old = Some x \<and> - 50 \<le> x \<and> x \<le> 10)"
  using checked_cases by (auto simp: fallback_power_def split: option.splits)

lemma column_power_cases:
  "column_power idx cols old = old \<or>
   (\<exists>x. column_power idx cols old = Some x \<and> - 50 \<le> x \<and> x \<le> 10)"
  using checked_cases by (auto simp: column_power_def split: option.splits)

lemma kept_or_valid_refl: "kept_or_valid old old"
  by (simp add: kept_or_valid_def)

lemma kept_or_valid_trans:
  "kept_or_valid a b \<Longrightarrow> kept_or_valid b c \<Longrightarrow> kept_or_valid a c"
  by (auto simp: kept_or_valid_def)

lemma value_steps_kept_or_valid:
  "kept_or_valid (tx_power s) (tx_power (value_steps v line s)) \<and>
   kept_or_valid (rx_power s) (rx_power (value_steps v line s))"
proof -
  have c: "\<And>r n old. kept_or_valid old (captured_power r n line old)"
    using captured_power_cases by (simp add: kept_or_valid_def)
  have f: "\<And>d old. kept_or_valid old (fallback_power d line old)"
    using fallback_power_cases by (simp add: kept_or_valid_def)
  have tx: "kept_or_valid (tx_power s) (tx_power (value_steps v line s))"
    unfolding value_steps_def Let_def
    by (auto intro: kept_or_valid_trans [OF c] kept_or_valid_trans [OF c f] f c)
  have rx: "kept_or_valid (rx_power s) (rx_power (value_steps v line s))"
    unfolding value_steps_def Let_def
    by (auto intro: kept_or_valid_trans [OF c] kept_or_valid_trans [OF c f] f c)
  show ?thesis using tx rx by simp
qed

lemma table_row_kept_or_valid:
  "kept_or_valid (tx_power s) (tx_power (table_row_step line s)) \<and>
   kept_or_valid (rx_power s) (rx_power (table_row_step line s))"
  using column_power_cases by (simp add: table_row_step_def Let_def kept_or_valid_def)

lemma header_step_powers:
  "tx_power (header_step line s) = tx_power s \<and> rx_power (header_step line s) = rx_power s"
  by (simp add: header_step_def Let_def)

lemma process_line_kept_or_valid:
  assumes "re_search PORT_RE (strip raw) = None"
  shows "kept_or_valid (tx_power s) (tx_power (snd (process_line env raw s))) \<and>
         kept_or_valid (rx_power s) (rx_power (snd (process_line env raw s)))"
  using assms value_steps_kept_or_valid [of "with_command_type env raw s" "vendor env" "strip raw"]
    table_row_kept_or_valid [of "with_command_type env raw s" "strip raw"]
    header_step_powers [of "strip raw" "with_command_type env raw s"]
  by (simp add: process_line_def Let_def kept_or_valid_refl with_command_type_def)

lemma process_line_powers:
  "(tx_power (snd (process_line env raw s)) = None \<or>
    kept_or_valid (tx_power s) (tx_power (snd (process_line env raw s)))) \<and>
   (rx_power (snd (process_line env raw s)) = None \<or>
    kept_or_valid (rx_power s) (rx_power (snd (process_line env raw s))))"
proof (cases "re_search PORT_RE (strip raw)")
  case None
  then show ?thesis using process_line_kept_or_valid [of raw s env] by simp
next
  case (Some m)
  then show ?thesis by (simp add: process_line_port opened_def)
qed

lemma kept_or_valid_ok: "power_ok old \<Longrightarrow> kept_or_valid old new \<Longrightarrow> power_ok new"
  by (auto simp: power_ok_def kept_or_valid_def)

lemma process_line_context_ok:
  assumes "context_ok s"
  shows "context_ok (snd (process_line env raw s))"
proof -
  have n: "power_ok None" by (simp add: power_ok_def)
  show ?thesis
    using assms process_line_powers [of env raw s] n
    unfolding context_ok_def by (metis kept_or_valid_ok)
qed

lemma save_port_record_ok:
  "context_ok s \<Longrightarrow> r \<in> set (fst (save_port env s)) \<Longrightarrow> record_ok r"
  using save_port_records [of r env s] by (simp add: context_ok_def record_ok_def)

lemma save_port_informative:
  "r \<in> set (fst (save_port env s)) \<Longrightarrow> informative r"
  by (auto simp: save_port_def informative_def split: option.splits if_splits)

lemma with_command_type_ok: "context_ok (with_command_type env raw s) = context_ok s"
  by (simp add: context_ok_def with_command_type_def)

lemma process_line_records:
  "r \<in> set (fst (process_line env raw s)) \<Longrightarrow>
   r \<in> set (fst (save_port env (with_command_type env raw s)))"
  by (cases "re_search PORT_RE (strip raw)") (simp_all add: process_line_port process_line_no_port_out)

lemma process_line_record_ok:
  "context_ok s \<Longrightarrow> r \<in> set (fst (process_line env raw s)) \<Longrightarrow> record_ok r"
  using process_line_records save_port_record_ok with_command_type_ok by blast

lemma process_line_informative:
  "r \<in> set (fst (process_line env raw s)) \<Longrightarrow> informative r"
  using process_line_records save_port_informative by blast

lemma scan_lines_ok:
  "context_ok s \<Longrightarrow>
   context_ok (snd (scan_lines env ls s)) \<and> (\<forall>r \<in> set (fst (scan_lines env ls s)). record_ok r)"
proof (induction ls arbitrary: s)
  case Nil
  then show ?case by simp
next
  case (Cons l ls)
  have s1: "context_ok (snd (process_line env l s))"
    by (rule process_line_context_ok [OF Cons.prems])
  show ?case
    using Cons.IH [OF s1] process_line_record_ok [OF Cons.prems, of _ env l]
    by (auto simp: split_beta)
qed

lemma scan_lines_informative:
  "\<forall>r \<in> set (fst (scan_lines env ls s)). informative r"
proof (induction ls arbitrary: s)
  case Nil
  then show ?case by simp
next
  case (Cons l ls)
  show ?case
    using Cons.IH [of "snd (process_line env l s)"] process_line_informative [of _ env l s]
    by (auto simp: split_beta)
qed

lemma initial_context_ok: "context_ok (initial_context ppd)"
  by (simp add: context_ok_def initial_context_def power_ok_def)

lemma scan_segment_ok: "\<forall>r \<in> set (fst (scan_segment env ppd seg)). record_ok r"
  using scan_lines_ok [OF initial_context_ok, of env seg ppd] save_port_record_ok
  by (auto simp: scan_segment_def split_beta)

lemma scan_segment_informative: "\<forall>r \<in> set (fst (scan_segment env ppd seg)). informative r"
  using scan_lines_informative [of env seg "initial_context ppd"] save_port_informative
  by (auto simp: scan_segment_def split_beta)

lemma foldl_segments_all:
  assumes "\<And>ppd seg. \<forall>r \<in> set (fst (scan_segment env ppd seg)). P r"
  shows "(\<forall>r \<in> set out. P r) \<Longrightarrow>
    \<forall>r \<in> set (fst (foldl (\<lambda>(out, ppd) seg. case scan_segment env ppd seg of (o2, ppd2) \<Rightarrow> (out @ o2, ppd2))
                     (out, ppd) segs)). P r"
proof (induction segs arbitrary: out ppd)
  case Nil
  then show ?case by simp
next
  case (Cons seg segs)
  have "\<forall>r \<in> set (out @ fst (scan_segment env ppd seg)). P r"
    using Cons.prems assms by auto
  from Cons.IH [OF this, of "snd (scan_segment env ppd seg)"]
  show ?case by (simp add: split_beta)
qed

lemma scan_segments_all:
  assumes "\<And>ppd seg. \<forall>r \<in> set (fst (scan_segment env ppd seg)). P r"
  shows "\<forall>r \<in> set (scan_segments env segs). P r"
  unfolding scan_segments_def using foldl_segments_all [OF assms, of "[]"] by simp

lemma extract_all:
  assumes "\<And>env ppd seg. \<forall>r \<in> set (fst (scan_segment env ppd seg)). P r"
  shows "\<forall>r \<in> set (extract_power_info lines base v nt). P r"
  using scan_segments_all [OF assms] by (simp add: extract_power_info_def Let_def)

lemma extract_ok: "\<forall>r \<in> set (extract_power_info lines base v nt). record_ok r"
  by (rule extract_all) (rule scan_segment_ok)

lemma extract_informative: "\<forall>r \<in> set (extract_power_info lines base v nt). informative r"
  by (rule extract_all) (rule scan_segment_informative)

subsection \<open>Stripping twice\<close>

lemma dropWhile_rev_fixed:
  assumes "u = dropWhile P (rev (dropWhile P s))"
  shows "dropWhile P (rev u) = rev u"
proof (cases "u = []")
  case True
  then show ?thesis by simp
next
  case False
  let ?t = "dropWhile P s"
  have t: "?t \<noteq> []"
  proof
    assume "?t = []"
    then have "u = []" unfolding assms by (simp del: dropWhile_eq_Nil_conv)
    then show False using False by simp
  qed
  have "last u = last (rev ?t)"
    using False assms by (simp add: dropWhile_eq_drop)
  then have "last u = hd ?t" using t by (simp add: last_rev)
  then have "\<not> P (last u)" using t hd_dropWhile [of P s] by simp
  then have "\<not> P (hd (rev u))" using False by (simp add: hd_rev)
  then show ?thesis using False by (cases "rev u") auto
qed

lemma strip_idem: "strip (strip s) = strip s"
proof -
  let ?u = "dropWhile is_space (rev (dropWhile is_space s))"
  have "dropWhile is_space (rev ?u) = rev ?u" by (rule dropWhile_rev_fixed) simp
  then show ?thesis by (simp add: strip_def)
qed

subsection \<open>The table steps and the value steps\<close>

lemma process_line_header:
  assumes "passes_markers env s raw" "is_table_header (vendor env) (strip raw)"
  shows "process_line env raw s = ([], header_step (strip raw) (with_command_type env raw s))"
  using assms
  by (auto simp: process_line_def Let_def passes_markers_def marker_line_def block_marker_def
      with_command_type_def)

lemma process_line_row:
  assumes "passes_markers env s raw" "\<not> is_table_header (vendor env) (strip raw)"
    "table_header_found s"
  shows "process_line env raw s = ([], table_row_step (strip raw) (with_command_type env raw s))"
  using assms
  by (auto simp: process_line_def Let_def passes_markers_def marker_line_def block_marker_def
      with_command_type_def)

lemma process_line_values:
  assumes "passes_markers env s raw" "\<not> is_table_header (vendor env) (strip raw)"
    "\<not> table_header_found s"
  shows "process_line env raw s = ([], value_steps (vendor env) (strip raw) (with_command_type env raw s))"
  using assms
  by (auto simp: process_line_def Let_def passes_markers_def marker_line_def block_marker_def
      with_command_type_def)

lemma process_line_skipped:
  assumes "re_search PORT_RE (strip raw) = None" "\<not> marker_line s raw" "\<not> is_optical_port s"
  shows "process_line env raw s = ([], with_command_type env raw s)"
  using assms
  by (auto simp: process_line_def Let_def marker_line_def with_command_type_def)

lemma passes_markers_cong:
  "current_port s' = current_port s \<Longrightarrow> is_optical_port s' = is_optical_port s \<Longrightarrow>
   passes_markers env s' raw = passes_markers env s raw"
  by (simp add: passes_markers_def marker_line_def)

lemma header_step_fields:
  "table_header_found (header_step line s) \<and>
   current_port (header_step line s) = current_port s \<and>
   is_optical_port (header_step line s) = is_optical_port s \<and>
   tx_power (header_step line s) = tx_power s \<and> rx_power (header_step line s) = rx_power s \<and>
   (rx_power_col_idx (header_step line s), tx_power_col_idx (header_step line s)) =
     (let rx = first_index (contains ''RX power'') (re_split_ws2 (strip line));
          tx = first_index (contains ''TX power'') (re_split_ws2 (strip line))
      in if rx = None \<or> tx = None then (None, None) else (rx, tx))"
  by (simp add: header_step_def Let_def)

lemma table_row_step_fields:
  "\<not> table_header_found (table_row_step line s) \<and>
   current_port (table_row_step line s) = current_port s \<and>
   is_optical_port (table_row_step line s) = is_optical_port s \<and>
   rx_power (table_row_step line s) =
     column_power (rx_power_col_idx s) (re_split_ws2 (strip line)) (rx_power s) \<and>
   tx_power (table_row_step line s) =
     column_power (tx_power_col_idx s) (re_split_ws2 (strip line)) (tx_power s)"
  by (simp add: table_row_step_def Let_def)

lemma with_command_type_fields:
  "current_port (with_command_type env raw s) = current_port s \<and>
   is_optical_port (with_command_type env raw s) = is_optical_port s \<and>
   tx_power (with_command_type env raw s) = tx_power s \<and>
   rx_power (with_command_type env raw s) = rx_power s \<and>
   status (with_command_type env raw s) = status s \<and>
   table_header_found (with_command_type env raw s) = table_header_found s \<and>
   rx_power_col_idx (with_command_type env raw s) = rx_power_col_idx s \<and>
   tx_power_col_idx (with_command_type env raw s) = tx_power_col_idx s"
  by (simp add: with_command_type_def)

lemma value_steps_fields:
  "table_header_found (value_steps v line s) = table_header_found s \<and>
   status (value_steps v line s) = reported_status line (status s)"
  by (simp add: value_steps_def Let_def)

section \<open>The claims\<close>

lemma scan_lines_port:
  assumes "re_search PORT_RE (strip raw) = Some m"
  shows "scan_lines env (raw # post) s =
     (fst (save_port env (with_command_type env raw s)) @ fst (scan_lines env post (opened (match_group m 1))),
      snd (scan_lines env post (opened (match_group m 1))))"
  by (simp add: process_line_port [OF assms] split_beta)

text \<open>
  Claim C1. An interface-name line first flushes the port context it finds: the records
  appended are those of \<open>save_port\<close> on the state it received (after the command-type
  test), at most one, carrying the port and the power values of that state. Then it
  opens the new port with the defaults: optical, status unknown, no power values, table
  state cleared. The state it leaves depends on the matched name only, so the rest of
  the segment is scanned from a state that holds nothing of the port before: a power
  value read for one port cannot reach the record of the next.
\<close>

theorem port_line_flushes_then_opens:
  assumes "re_search PORT_RE (strip raw) = Some m"
  shows "process_line env raw s =
           (fst (save_port env (with_command_type env raw s)), opened (match_group m 1)) \<and>
         length (fst (process_line env raw s)) \<le> 1 \<and>
         (\<forall>r \<in> set (fst (process_line env raw s)).
            Some (Port r) = current_port s \<and> TX_Power r = tx_power s \<and> RX_Power r = rx_power s) \<and>
         tx_power (snd (process_line env raw s)) = None \<and>
         rx_power (snd (process_line env raw s)) = None \<and>
         status (snd (process_line env raw s)) = Unknown \<and>
         is_optical_port (snd (process_line env raw s)) \<and>
         \<not> table_header_found (snd (process_line env raw s)) \<and>
         rx_power_col_idx (snd (process_line env raw s)) = None \<and>
         tx_power_col_idx (snd (process_line env raw s)) = None \<and>
         scan_lines env (raw # post) s =
           (fst (save_port env (with_command_type env raw s)) @
              fst (scan_lines env post (opened (match_group m 1))),
            snd (scan_lines env post (opened (match_group m 1))))"
proof -
  have p: "process_line env raw s =
      (fst (save_port env (with_command_type env raw s)), opened (match_group m 1))"
    by (rule process_line_port [OF assms])
  have r: "\<forall>r \<in> set (fst (process_line env raw s)).
      Some (Port r) = current_port s \<and> TX_Power r = tx_power s \<and> RX_Power r = rx_power s"
    using save_port_records [of _ env "with_command_type env raw s"]
    by (simp add: p with_command_type_def)
  have l: "length (fst (process_line env raw s)) \<le> 1"
    using save_port_length [of env "with_command_type env raw s"] by (simp add: p)
  have fields: "tx_power (snd (process_line env raw s)) = None \<and>
         rx_power (snd (process_line env raw s)) = None \<and>
         status (snd (process_line env raw s)) = Unknown \<and>
         is_optical_port (snd (process_line env raw s)) \<and>
         \<not> table_header_found (snd (process_line env raw s)) \<and>
         rx_power_col_idx (snd (process_line env raw s)) = None \<and>
         tx_power_col_idx (snd (process_line env raw s)) = None"
    by (simp add: p opened_def)
  note sl = scan_lines_port [OF assms, of env post s]
  show ?thesis
    using p l r fields sl by - (elim conjE, intro conjI, assumption+)
qed

theorem port_line_flushes_then_opens_witness:
  "re_search PORT_RE (strip ''GE1/0/2 transceiver diagnostic information:'') = Some [(1, ''GE1/0/2'')] \<and>
   process_line h3c_env ''GE1/0/2 transceiver diagnostic information:'' port_read =
     ([record_of port_read], opened (Some ''GE1/0/2'')) \<and>
   tx_power (snd (process_line h3c_env ''GE1/0/2 transceiver diagnostic information:'' port_read)) = None"
proof -
  have h: "re_search PORT_RE (strip ''GE1/0/2 transceiver diagnostic information:'') = Some [(1, ''GE1/0/2'')]"
    by code_simp
  have f: "fst (save_port h3c_env
        (with_command_type h3c_env ''GE1/0/2 transceiver diagnostic information:'' port_read)) =
      [record_of port_read]"
    by code_simp
  have g: "match_group [(1, ''GE1/0/2'')] 1 = Some ''GE1/0/2''"
    by (simp add: match_group_def)
  note t = port_line_flushes_then_opens [OF h, of h3c_env port_read "[]"]
  have a: "process_line h3c_env ''GE1/0/2 transceiver diagnostic information:'' port_read =
      ([record_of port_read], opened (Some ''GE1/0/2''))"
    using conjunct1 [OF t] by (simp only: f g)
  have b: "tx_power (snd (process_line h3c_env ''GE1/0/2 transceiver diagnostic information:''
      port_read)) = None"
    using t by (elim conjE)
  show ?thesis
    using h a b by (intro conjI)
qed

text \<open>
  Claim C2. Every record that \<open>extract_power_info\<close> returns has its power fields absent
  or between -50 and 10. One loop iteration leaves each power field reset, unchanged, or
  set to a value of that interval, whatever the state before; and a candidate text whose
  number lies outside the interval, or that is no number, leaves the field as it was. All
  four sources of a candidate (table column, direct pattern, H3C pattern, fallback) assign
  through \<open>checked\<close>.
\<close>

theorem power_values_in_range:
  "(\<forall>r \<in> set (extract_power_info lines base v nt).
      power_ok (TX_Power r) \<and> power_ok (RX_Power r)) \<and>
   (tx_power (snd (process_line env raw s)) = None \<or>
    kept_or_valid (tx_power s) (tx_power (snd (process_line env raw s)))) \<and>
   (rx_power (snd (process_line env raw s)) = None \<or>
    kept_or_valid (rx_power s) (rx_power (snd (process_line env raw s)))) \<and>
   (\<forall>f. py_float t = Some f \<and> \<not> in_range f \<longrightarrow> checked t old = old) \<and>
   (py_float t = None \<longrightarrow> checked t old = old)"
proof -
  have a: "\<forall>r \<in> set (extract_power_info lines base v nt).
      power_ok (TX_Power r) \<and> power_ok (RX_Power r)"
    using extract_ok [of lines base v nt] by (simp add: record_ok_def)
  have c: "\<forall>f. py_float t = Some f \<and> \<not> in_range f \<longrightarrow> checked t old = old"
    by (auto simp: checked_def in_range_def split: pyfloat.splits)
  have d: "py_float t = None \<longrightarrow> checked t old = old"
    by (simp add: checked_def)
  show ?thesis
    using a process_line_powers [of env raw s] c d by - (elim conjE, intro conjI, assumption+)
qed

lemma example_extraction:
  "extract_power_info
     [''display transceiver verbose'', ''GE1/0/1 transceiver information:'',
      ''TX Power: 15.00'', ''RX Power: -3.25'']
     ''sw1.log'' ''H3C'' ''LAN'' =
   [\<lparr>Vendor = ''H3C'', NetworkType = ''LAN'', Device = ''sw1.log'', Port = ''GE1/0/1'',
     TX_Power = None, RX_Power = Some (- 13 / 4), Status = Unknown,
     CommandType = ''unknown'', LogFileName = ''sw1.log''\<rparr>]"
  by code_simp

theorem power_values_in_range_witness:
  "py_float ''15.00'' = Some (Finite 15) \<and> \<not> in_range (Finite 15) \<and>
   checked ''15.00'' None = None \<and>
   power_ok (TX_Power (hd (extract_power_info
       [''display transceiver verbose'', ''GE1/0/1 transceiver information:'',
        ''TX Power: 15.00'', ''RX Power: -3.25'']
       ''sw1.log'' ''H3C'' ''LAN''))) \<and>
   power_ok (RX_Power (hd (extract_power_info
       [''display transceiver verbose'', ''GE1/0/1 transceiver information:'',
        ''TX Power: 15.00'', ''RX Power: -3.25'']
       ''sw1.log'' ''H3C'' ''LAN''))) \<and>
   RX_Power (hd (extract_power_info
       [''display transceiver verbose'', ''GE1/0/1 transceiver information:'',
        ''TX Power: 15.00'', ''RX Power: -3.25'']
       ''sw1.log'' ''H3C'' ''LAN'')) = Some (- 13 / 4)"
proof -
  have f: "py_float ''15.00'' = Some (Finite 15)"
    by code_simp
  have n: "\<not> in_range (Finite 15)"
    by (simp add: in_range_def)
  note t = power_values_in_range [of
      "[''display transceiver verbose'', ''GE1/0/1 transceiver information:'',
        ''TX Power: 15.00'', ''RX Power: -3.25'']"
      "''sw1.log''" "''H3C''" "''LAN''" h3c_env "''''" port_open "''15.00''" None]
  have c: "checked ''15.00'' None = None"
    using t f n by blast
  have r: "\<forall>r \<in> set (extract_power_info
       [''display transceiver verbose'', ''GE1/0/1 transceiver information:'',
        ''TX Power: 15.00'', ''RX Power: -3.25'']
       ''sw1.log'' ''H3C'' ''LAN''). power_ok (TX_Power r) \<and> power_ok (RX_Power r)"
    using t by (elim conjE)
  have m: "hd (extract_power_info
       [''display transceiver verbose'', ''GE1/0/1 transceiver information:'',
        ''TX Power: 15.00'', ''RX Power: -3.25'']
       ''sw1.log'' ''H3C'' ''LAN'') \<in> set (extract_power_info
       [''display transceiver verbose'', ''GE1/0/1 transceiver information:'',
        ''TX Power: 15.00'', ''RX Power: -3.25'']
       ''sw1.log'' ''H3C'' ''LAN'')"
    by (simp only: example_extraction list.sel list.set insertI1)
  have v: "RX_Power (hd (extract_power_info
       [''display transceiver verbose'', ''GE1/0/1 transceiver information:'',
        ''TX Power: 15.00'', ''RX Power: -3.25'']
       ''sw1.log'' ''H3C'' ''LAN'')) = Some (- 13 / 4)"
    by (simp only: example_extraction list.sel port_record.simps)
  show ?thesis
    using f n c bspec [OF r m] v by (intro conjI) blast+
qed

text \<open>
  Claim C3. A flush appends a record exactly when the current port is a non-empty name
  and a power value is set or the status is not unknown; it appends at most one, which
  carries the fields of the state. Hence every record of a segment, and of a file, names
  a port and says something about it: a port context without information is dropped.
\<close>

theorem flush_emits_iff_informative:
  "(fst (save_port env s) \<noteq> []) =
     (\<exists>p. current_port s = Some p \<and> p \<noteq> [] \<and>
          (tx_power s \<noteq> None \<or> rx_power s \<noteq> None \<or> status s \<noteq> Unknown)) \<and>
   length (fst (save_port env s)) \<le> 1 \<and>
   (\<forall>r \<in> set (fst (save_port env s)).
      Some (Port r) = current_port s \<and> TX_Power r = tx_power s \<and> RX_Power r = rx_power s \<and>
      Status r = status s \<and> CommandType r = command_type s) \<and>
   (\<forall>r \<in> set (fst (scan_segment env ppd seg)). informative r) \<and>
   (\<forall>r \<in> set (extract_power_info lines base v nt). informative r)"
proof -
  have a: "(fst (save_port env s) \<noteq> []) =
     (\<exists>p. current_port s = Some p \<and> p \<noteq> [] \<and>
          (tx_power s \<noteq> None \<or> rx_power s \<noteq> None \<or> status s \<noteq> Unknown))"
    by (auto simp: save_port_def split: option.splits)
  have b: "\<forall>r \<in> set (fst (save_port env s)).
      Some (Port r) = current_port s \<and> TX_Power r = tx_power s \<and> RX_Power r = rx_power s \<and>
      Status r = status s \<and> CommandType r = command_type s"
    using save_port_records [of _ env s] by blast
  show ?thesis
    using a save_port_length [of env s] b scan_segment_informative [of env ppd seg]
      extract_informative [of lines base v nt]
    by - (intro conjI, assumption+)
qed

lemma example_two_ports:
  "scan_segment h3c_env None [''GE1/0/2'', ''GE1/0/1'', ''The transceiver is absent.''] =
     ([record_of port_absent], Some False)"
  by code_simp

theorem flush_emits_iff_informative_witness:
  "fst (save_port h3c_env port_open) = [] \<and>
   fst (save_port h3c_env port_absent) \<noteq> [] \<and>
   scan_segment h3c_env None [''GE1/0/2'', ''GE1/0/1'', ''The transceiver is absent.''] =
     ([record_of port_absent], Some False) \<and>
   informative (record_of port_absent)"
proof -
  note t = flush_emits_iff_informative [of h3c_env port_open None
      "[''GE1/0/2'', ''GE1/0/1'', ''The transceiver is absent.'']" "[]" "[]" "[]" "[]"]
  note u = flush_emits_iff_informative [of h3c_env port_absent None "[]" "[]" "[]" "[]" "[]"]
  have n: "\<not> (\<exists>p. current_port port_open = Some p \<and> p \<noteq> [] \<and>
          (tx_power port_open \<noteq> None \<or> rx_power port_open \<noteq> None \<or> status port_open \<noteq> Unknown))"
    by (simp add: port_open_def opened_def)
  have y: "\<exists>p. current_port port_absent = Some p \<and> p \<noteq> [] \<and>
          (tx_power port_absent \<noteq> None \<or> rx_power port_absent \<noteq> None \<or> status port_absent \<noteq> Unknown)"
    by (simp add: port_absent_def opened_def)
  have a: "fst (save_port h3c_env port_open) = []"
    using conjunct1 [OF t] n by blast
  have b: "fst (save_port h3c_env port_absent) \<noteq> []"
    using conjunct1 [OF u] y by blast
  have c: "\<forall>r \<in> set (fst (scan_segment h3c_env None
      [''GE1/0/2'', ''GE1/0/1'', ''The transceiver is absent.''])). informative r"
    using t by (elim conjE)
  have d: "informative (record_of port_absent)"
    using c unfolding example_two_ports fst_conv by simp
  show ?thesis
    using a b example_two_ports d by (intro conjI)
qed

text \<open>
  Claim C4. A status-marker line (non-optical, absent, not supported, copper) clears
  \<open>is_optical_port\<close>; over any lines after it that hold no interface name the flag stays
  cleared, nothing is appended, and both power fields stay what they were after the marker
  line, whatever those lines contain.
\<close>

theorem non_optical_port_acquires_no_power:
  assumes "re_search PORT_RE (strip raw) = None" and "marker_line s raw"
    and "\<forall>l \<in> set ls. re_search PORT_RE (strip l) = None"
  shows "\<not> is_optical_port (snd (process_line env raw s)) \<and>
         fst (scan_lines env ls (snd (process_line env raw s))) = [] \<and>
         tx_power (snd (scan_lines env ls (snd (process_line env raw s)))) =
           tx_power (snd (process_line env raw s)) \<and>
         rx_power (snd (scan_lines env ls (snd (process_line env raw s)))) =
           rx_power (snd (process_line env raw s)) \<and>
         \<not> is_optical_port (snd (scan_lines env ls (snd (process_line env raw s))))"
proof -
  have n: "\<not> is_optical_port (snd (process_line env raw s))"
    by (rule process_line_marker(3) [OF assms(1,2)])
  show ?thesis
    using n scan_lines_non_optical [OF assms(3) n, of env] by simp
qed

theorem non_optical_port_acquires_no_power_witness:
  "re_search PORT_RE (strip ''The transceiver is absent.'') = None \<and>
   marker_line port_open ''The transceiver is absent.'' \<and>
   re_search PORT_RE (strip ''TX Power: -2.50 dBm'') = None \<and>
   re_search TX_POWER_RE (strip ''TX Power: -2.50 dBm'') = Some [(1, ''-2.50'')] \<and>
   tx_power (snd (scan_lines h3c_env [''TX Power: -2.50 dBm'']
      (snd (process_line h3c_env ''The transceiver is absent.'' port_open)))) =
     tx_power (snd (process_line h3c_env ''The transceiver is absent.'' port_open))"
proof -
  have h1: "re_search PORT_RE (strip ''The transceiver is absent.'') = None"
    by code_simp
  have h2: "marker_line port_open ''The transceiver is absent.''"
    by code_simp
  have h3: "\<forall>l \<in> set [''TX Power: -2.50 dBm'']. re_search PORT_RE (strip l) = None"
    by code_simp
  have h4: "re_search TX_POWER_RE (strip ''TX Power: -2.50 dBm'') = Some [(1, ''-2.50'')]"
    by code_simp
  note t = non_optical_port_acquires_no_power [OF h1 h2 h3, of h3c_env]
  have c: "tx_power (snd (scan_lines h3c_env [''TX Power: -2.50 dBm'']
      (snd (process_line h3c_env ''The transceiver is absent.'' port_open)))) =
     tx_power (snd (process_line h3c_env ''The transceiver is absent.'' port_open))"
    using t by (elim conjE)
  have h5: "re_search PORT_RE (strip ''TX Power: -2.50 dBm'') = None"
    using h3 by simp
  show ?thesis
    using h1 h2 h5 h4 c by (intro conjI)
qed

text \<open>
  Claim C10. A status-marker line keeps the power values already assigned to the open
  port: it sets the status and clears \<open>is_optical_port\<close> only. After any further lines
  without an interface name, the flush appends one record for the port, with those power
  values and a status of the non-optical family.
\<close>

theorem marker_keeps_assigned_power:
  assumes "current_port s = Some p" and "p \<noteq> []"
    and "re_search PORT_RE (strip raw) = None" and "marker_line s raw"
    and "\<forall>l \<in> set ls. re_search PORT_RE (strip l) = None"
  shows "tx_power (snd (process_line env raw s)) = tx_power s \<and>
         rx_power (snd (process_line env raw s)) = rx_power s \<and>
         not_applicable (status (snd (process_line env raw s))) \<and>
         \<not> is_optical_port (snd (process_line env raw s)) \<and>
         (\<exists>r. fst (save_port env (snd (scan_lines env (raw # ls) s))) = [r] \<and> Port r = p \<and>
              TX_Power r = tx_power s \<and> RX_Power r = rx_power s \<and> not_applicable (Status r))"
proof -
  let ?s1 = "snd (process_line env raw s)"
  let ?s2 = "snd (scan_lines env ls ?s1)"
  note m = process_line_marker [OF assms(3,4), of env]
  have na1: "not_applicable (status ?s1)"
    using m(5) by (auto simp: not_applicable_def)
  note n = scan_lines_non_optical [OF assms(5) m(3), of env]
  have st: "status ?s2 \<in> {Non_optical, Absent, Not_supported, Copper_port}"
    using n m(5) by blast
  have fin: "snd (scan_lines env (raw # ls) s) = ?s2"
    by (simp add: split_beta)
  have cp: "current_port ?s2 = Some p" using n m(4) assms(1) by simp
  have tx: "tx_power ?s2 = tx_power s" using n m(1) by simp
  have rx: "rx_power ?s2 = rx_power s" using n m(2) by simp
  have un: "status ?s2 \<noteq> Unknown" using st by auto
  have "fst (save_port env ?s2) =
      [\<lparr>Vendor = vendor env, NetworkType = network_type env, Device = device env, Port = p,
        TX_Power = tx_power s, RX_Power = rx_power s, Status = status ?s2,
        CommandType = command_type ?s2, LogFileName = log_file_name env\<rparr>]"
    using cp tx rx un assms(2) by (simp add: save_port_def)
  then have ex: "\<exists>r. fst (save_port env (snd (scan_lines env (raw # ls) s))) = [r] \<and> Port r = p \<and>
              TX_Power r = tx_power s \<and> RX_Power r = rx_power s \<and> not_applicable (Status r)"
    using st unfolding fin by (auto simp: not_applicable_def)
  show ?thesis
    using m(1) m(2) na1 m(3) ex by (intro conjI)
qed

theorem marker_keeps_assigned_power_witness:
  "current_port port_read = Some ''GE1/0/1'' \<and> ''GE1/0/1'' \<noteq> [] \<and>
   tx_power port_read = Some (- 9 / 4) \<and> rx_power port_read = Some (- 11 / 2) \<and>
   re_search PORT_RE (strip ''The transceiver is absent.'') = None \<and>
   marker_line port_read ''The transceiver is absent.'' \<and>
   (\<exists>r. fst (save_port h3c_env (snd (scan_lines h3c_env [''The transceiver is absent.''] port_read))) = [r] \<and>
        Port r = ''GE1/0/1'' \<and> TX_Power r = Some (- 9 / 4) \<and> RX_Power r = Some (- 11 / 2) \<and>
        not_applicable (Status r))"
proof -
  have h1: "current_port port_read = Some ''GE1/0/1''"
    by (simp add: port_read_def opened_def)
  have h2: "''GE1/0/1'' \<noteq> []" by simp
  have h3: "re_search PORT_RE (strip ''The transceiver is absent.'') = None"
    by code_simp
  have h4: "marker_line port_read ''The transceiver is absent.''"
    by code_simp
  have h5: "\<forall>l \<in> set []. re_search PORT_RE (strip l) = None" by simp
  have tx: "tx_power port_read = Some (- 9 / 4)" by (simp add: port_read_def opened_def)
  have rx: "rx_power port_read = Some (- 11 / 2)" by (simp add: port_read_def opened_def)
  note t = marker_keeps_assigned_power [OF h1 h2 h3 h4 h5, of h3c_env]
  have c: "\<exists>r. fst (save_port h3c_env (snd (scan_lines h3c_env [''The transceiver is absent.''] port_read))) = [r] \<and>
        Port r = ''GE1/0/1'' \<and> TX_Power r = tx_power port_read \<and> RX_Power r = rx_power port_read \<and>
        not_applicable (Status r)"
    using t by (elim conjE)
  show ?thesis
    using h1 h2 tx rx h3 h4 c unfolding tx rx by (intro conjI)
qed

lemma scan_lines_quiet:
  "process_line env l s = ([], s1) \<Longrightarrow> scan_lines env (l # ls) s = scan_lines env ls s1"
  by (simp add: split_beta)

lemma segment_step_1:
  "process_line h3c_env ''display transceiver diagnosis interface'' (initial_context None) =
     ([], after_command)"
  by code_simp

lemma segment_step_2:
  "process_line h3c_env ''GE1/0/1 transceiver diagnostic information:'' after_command =
     ([], opened (Some ''GE1/0/1''))"
  by code_simp

lemma segment_step_3:
  "process_line h3c_env ''Current diagnostic parameters:'' (opened (Some ''GE1/0/1'')) =
     ([], after_diag_marker)"
  by code_simp

lemma segment_step_4:
  "process_line h3c_env ''Temp.(C)  Voltage(V)  Bias(mA)  RX power(dBm)  TX power(dBm)''
     after_diag_marker = ([], after_diag_header)"
  by code_simp

lemma segment_step_5:
  "process_line h3c_env ''36  3.31  6.13  -5.50  -2.25'' after_diag_header = ([], after_diag_row)"
  by code_simp

lemma segment_step_6:
  "process_line h3c_env ''Alarm thresholds:'' after_diag_row = ([], after_alarm_marker)"
  by code_simp

lemma segment_step_7:
  "process_line h3c_env ''Temp.(C)  Voltage(V)  Bias(mA)  RX power(dBm)  TX power(dBm)''
     after_alarm_marker = ([], after_alarm_header)"
  by code_simp

lemma segment_step_8:
  "process_line h3c_env ''50  3.55  1.44  -10.00  5.00'' after_alarm_header = ([], after_alarm_row)"
  by code_simp

lemma segment_flush:
  "fst (save_port h3c_env after_alarm_row) = [record_of after_alarm_row]"
  by code_simp

text \<open>
  Claim C6 says that after the line \<^verbatim>\<open>Alarm thresholds:\<close> no line is taken as a current
  reading. The source assigns \<^verbatim>\<open>parsing_power_data = False\<close> there and never reads
  that variable. On the H3C segment \<open>diagnosis_segment\<close> the current readings are
  RX -5.50 and TX -2.25; the table header repeated under the alarm thresholds sets
  \<open>table_header_found\<close> again, and the row of high thresholds overwrites both fields, so
  the record of the port reports RX -10 and TX 5.
\<close>

theorem alarm_thresholds_taken_as_readings:
  "scan_lines h3c_env diagnosis_segment (initial_context None) = ([], after_alarm_row) \<and>
   parsing_power_data after_alarm_row = Some False \<and>
   rx_power after_diag_row = Some (- 11 / 2) \<and> tx_power after_diag_row = Some (- 9 / 4) \<and>
   rx_power after_alarm_row = Some (- 10) \<and> tx_power after_alarm_row = Some 5 \<and>
   fst (scan_segment h3c_env None diagnosis_segment) = [record_of after_alarm_row] \<and>
   RX_Power (record_of after_alarm_row) = Some (- 10) \<and>
   TX_Power (record_of after_alarm_row) = Some 5"
proof -
  have a: "scan_lines h3c_env diagnosis_segment (initial_context None) = ([], after_alarm_row)"
    unfolding diagnosis_segment_def
    by (simp only: scan_lines_quiet [OF segment_step_1] scan_lines_quiet [OF segment_step_2]
        scan_lines_quiet [OF segment_step_3] scan_lines_quiet [OF segment_step_4]
        scan_lines_quiet [OF segment_step_5] scan_lines_quiet [OF segment_step_6]
        scan_lines_quiet [OF segment_step_7] scan_lines_quiet [OF segment_step_8]
        scan_lines.simps(1))
  have b: "fst (scan_segment h3c_env None diagnosis_segment) = [record_of after_alarm_row]"
    by (simp only: scan_segment_def a segment_flush prod.case fst_conv append_Nil)
  have c: "parsing_power_data after_alarm_row = Some False \<and>
   rx_power after_diag_row = Some (- 11 / 2) \<and> tx_power after_diag_row = Some (- 9 / 4) \<and>
   rx_power after_alarm_row = Some (- 10) \<and> tx_power after_alarm_row = Some 5 \<and>
   RX_Power (record_of after_alarm_row) = Some (- 10) \<and>
   TX_Power (record_of after_alarm_row) = Some 5"
    by (simp add: after_alarm_row_def after_alarm_header_def after_alarm_marker_def
        after_diag_row_def after_diag_header_def after_diag_marker_def opened_def record_of_def)
  show ?thesis
    using a b c by - (elim conjE, intro conjI, assumption+)
qed

lemma command_segment_extraction:
  "extract_power_info
     [''<SW1>display transceiver diagnosis interface'',
      ''GE1/0/1 transceiver diagnostic information:'',
      ''The transceiver is absent.'']
     ''sw1.log'' ''Huawei'' ''LAN'' =
   [\<lparr>Vendor = ''Huawei'', NetworkType = ''LAN'', Device = ''SW1'', Port = ''GE1/0/1'',
     TX_Power = None, RX_Power = None, Status = Absent,
     CommandType = ''unknown'', LogFileName = ''sw1.log''\<rparr>]"
  by code_simp

text \<open>
  Claim C5 says that a record emitted after a command-type marker carries the tag of that
  marker. The test at the head of the loop body sets the tag, as on the first line below;
  but \<open>save_port\<close> resets \<^verbatim>\<open>command_type\<close> to \<^verbatim>\<open>"unknown"\<close> with the port fields at every
  flush, and an interface-name line flushes before it opens its port. On the Huawei file
  below the marker line sets \<^verbatim>\<open>huawei_diag\<close>, the interface line resets it, and the record
  of the port carries \<^verbatim>\<open>unknown\<close>.
\<close>

theorem command_type_lost_at_flush:
  "command_type (snd (process_line huawei_env ''<SW1>display transceiver diagnosis interface''
      (initial_context None))) = ''huawei_diag'' \<and>
   command_type (snd (process_line huawei_env ''GE1/0/1 transceiver diagnostic information:''
      (snd (process_line huawei_env ''<SW1>display transceiver diagnosis interface''
      (initial_context None))))) = ''unknown'' \<and>
   map CommandType (extract_power_info
     [''<SW1>display transceiver diagnosis interface'',
      ''GE1/0/1 transceiver diagnostic information:'',
      ''The transceiver is absent.'']
     ''sw1.log'' ''Huawei'' ''LAN'') = [''unknown'']"
proof -
  have a: "command_type (snd (process_line huawei_env ''<SW1>display transceiver diagnosis interface''
      (initial_context None))) = ''huawei_diag''"
    by code_simp
  have c: "command_type (snd (process_line huawei_env ''GE1/0/1 transceiver diagnostic information:''
      (snd (process_line huawei_env ''<SW1>display transceiver diagnosis interface''
      (initial_context None))))) = ''unknown''"
    by code_simp
  have d: "map CommandType (extract_power_info
     [''<SW1>display transceiver diagnosis interface'',
      ''GE1/0/1 transceiver diagnostic information:'',
      ''The transceiver is absent.'']
     ''sw1.log'' ''Huawei'' ''LAN'') = [''unknown'']"
    by (simp only: command_segment_extraction list.map port_record.simps)
  show ?thesis
    using a c d by (intro conjI)
qed

text \<open>
  Claim C7. For a known vendor and an optical port, let a table-header line be followed
  by a line that no earlier test takes. The header sets \<open>table_header_found\<close>, keeps the
  power fields and records the positions of the RX and TX labels among the pieces of the
  line split at runs of two or more white-space characters. The next line is split in
  the same way; each power field becomes \<open>column_power\<close> of its recorded index, that is
  the checked value of that column when the index is recorded and in range; and
  \<open>table_header_found\<close> is cleared. A further line that is no header is handled by the
  value steps, not as table data, and leaves the flag cleared.
\<close>

theorem table_header_takes_one_row:
  assumes "passes_markers env s h" and "is_table_header (vendor env) (strip h)"
    and "passes_markers env s row" and "\<not> is_table_header (vendor env) (strip row)"
  shows "let s1 = snd (process_line env h s); s2 = snd (process_line env row s1) in
     table_header_found s1 \<and> tx_power s1 = tx_power s \<and> rx_power s1 = rx_power s \<and>
     (rx_power_col_idx s1, tx_power_col_idx s1) =
       (let rx = first_index (contains ''RX power'') (re_split_ws2 (strip h));
            tx = first_index (contains ''TX power'') (re_split_ws2 (strip h))
        in if rx = None \<or> tx = None then (None, None) else (rx, tx)) \<and>
     rx_power s2 = column_power (rx_power_col_idx s1) (re_split_ws2 (strip row)) (rx_power s) \<and>
     tx_power s2 = column_power (tx_power_col_idx s1) (re_split_ws2 (strip row)) (tx_power s) \<and>
     \<not> table_header_found s2 \<and>
     (\<forall>l3. passes_markers env s l3 \<and> \<not> is_table_header (vendor env) (strip l3) \<longrightarrow>
        process_line env l3 s2 =
          ([], value_steps (vendor env) (strip l3) (with_command_type env l3 s2)) \<and>
        \<not> table_header_found (snd (process_line env l3 s2)))"
proof -
  let ?s1 = "header_step (strip h) (with_command_type env h s)"
  let ?s2 = "table_row_step (strip row) (with_command_type env row ?s1)"
  have p1: "process_line env h s = ([], ?s1)"
    by (rule process_line_header [OF assms(1,2)])
  note f1 = header_step_fields [of "strip h" "with_command_type env h s"]
  note c1 = with_command_type_fields [of env h s]
  have pm1: "passes_markers env ?s1 row"
    using assms(3) f1 c1 passes_markers_cong [of ?s1 s env row] by simp
  have p2: "process_line env row ?s1 = ([], ?s2)"
    using process_line_row [OF pm1 assms(4)] f1 by simp
  note f2 = table_row_step_fields [of "strip row" "with_command_type env row ?s1"]
  note c2 = with_command_type_fields [of env row ?s1]
  have third: "\<forall>l3. passes_markers env s l3 \<and> \<not> is_table_header (vendor env) (strip l3) \<longrightarrow>
        process_line env l3 ?s2 =
          ([], value_steps (vendor env) (strip l3) (with_command_type env l3 ?s2)) \<and>
        \<not> table_header_found (snd (process_line env l3 ?s2))"
  proof (intro allI impI)
    fix l3
    assume a: "passes_markers env s l3 \<and> \<not> is_table_header (vendor env) (strip l3)"
    have pm: "passes_markers env ?s2 l3"
      using a f1 c1 f2 c2 passes_markers_cong [of ?s2 s env l3] by simp
    have nt: "\<not> table_header_found ?s2" using f2 by simp
    have eq: "process_line env l3 ?s2 =
        ([], value_steps (vendor env) (strip l3) (with_command_type env l3 ?s2))"
      using process_line_values [OF pm _ nt] a by simp
    show "process_line env l3 ?s2 =
          ([], value_steps (vendor env) (strip l3) (with_command_type env l3 ?s2)) \<and>
        \<not> table_header_found (snd (process_line env l3 ?s2))"
      using eq nt value_steps_fields [of "vendor env" "strip l3" "with_command_type env l3 ?s2"]
        with_command_type_fields [of env l3 ?s2] by simp
  qed
  have A: "table_header_found ?s1 \<and> tx_power ?s1 = tx_power s \<and> rx_power ?s1 = rx_power s"
    using f1 c1 by simp
  have B: "(rx_power_col_idx ?s1, tx_power_col_idx ?s1) =
       (let rx = first_index (contains ''RX power'') (re_split_ws2 (strip h));
            tx = first_index (contains ''TX power'') (re_split_ws2 (strip h))
        in if rx = None \<or> tx = None then (None, None) else (rx, tx))"
    using f1 by (simp only: strip_idem)
  have C: "rx_power ?s2 = column_power (rx_power_col_idx ?s1) (re_split_ws2 (strip row)) (rx_power s)"
    using f2 c2 f1 c1 by (simp add: strip_idem)
  have D: "tx_power ?s2 = column_power (tx_power_col_idx ?s1) (re_split_ws2 (strip row)) (tx_power s)"
    using f2 c2 f1 c1 by (simp add: strip_idem)
  have E: "\<not> table_header_found ?s2" using f2 by simp
  have all: "table_header_found ?s1 \<and> tx_power ?s1 = tx_power s \<and> rx_power ?s1 = rx_power s \<and>
     (rx_power_col_idx ?s1, tx_power_col_idx ?s1) =
       (let rx = first_index (contains ''RX power'') (re_split_ws2 (strip h));
            tx = first_index (contains ''TX power'') (re_split_ws2 (strip h))
        in if rx = None \<or> tx = None then (None, None) else (rx, tx)) \<and>
     rx_power ?s2 = column_power (rx_power_col_idx ?s1) (re_split_ws2 (strip row)) (rx_power s) \<and>
     tx_power ?s2 = column_power (tx_power_col_idx ?s1) (re_split_ws2 (strip row)) (tx_power s) \<and>
     \<not> table_header_found ?s2 \<and>
     (\<forall>l3. passes_markers env s l3 \<and> \<not> is_table_header (vendor env) (strip l3) \<longrightarrow>
        process_line env l3 ?s2 =
          ([], value_steps (vendor env) (strip l3) (with_command_type env l3 ?s2)) \<and>
        \<not> table_header_found (snd (process_line env l3 ?s2)))"
    using A B C D E third by - (elim conjE, intro conjI, assumption+)
  have s1: "snd (process_line env h s) = ?s1" using p1 by simp
  have s2: "snd (process_line env row ?s1) = ?s2" using p2 by simp
  show ?thesis
    unfolding Let_def s1 s2 using all unfolding Let_def .
qed

lemma third_row_not_table_data:
  "process_line h3c_env ''50  3.55  1.44  -10.00  5.00'' after_diag_row = ([], after_diag_row)"
  by code_simp

theorem table_header_takes_one_row_witness:
  "passes_markers h3c_env after_diag_marker
     ''Temp.(C)  Voltage(V)  Bias(mA)  RX power(dBm)  TX power(dBm)'' \<and>
   is_table_header (vendor h3c_env)
     (strip ''Temp.(C)  Voltage(V)  Bias(mA)  RX power(dBm)  TX power(dBm)'') \<and>
   passes_markers h3c_env after_diag_marker ''36  3.31  6.13  -5.50  -2.25'' \<and>
   \<not> is_table_header (vendor h3c_env) (strip ''36  3.31  6.13  -5.50  -2.25'') \<and>
   rx_power_col_idx after_diag_header = Some 3 \<and> tx_power_col_idx after_diag_header = Some 4 \<and>
   rx_power after_diag_row =
     column_power (Some 3) (re_split_ws2 (strip ''36  3.31  6.13  -5.50  -2.25'')) None \<and>
   tx_power after_diag_row =
     column_power (Some 4) (re_split_ws2 (strip ''36  3.31  6.13  -5.50  -2.25'')) None \<and>
   rx_power after_diag_row = Some (- 11 / 2) \<and> tx_power after_diag_row = Some (- 9 / 4) \<and>
   \<not> table_header_found after_diag_row \<and>
   process_line h3c_env ''50  3.55  1.44  -10.00  5.00'' after_diag_row = ([], after_diag_row)"
proof -
  have h1: "passes_markers h3c_env after_diag_marker
     ''Temp.(C)  Voltage(V)  Bias(mA)  RX power(dBm)  TX power(dBm)''"
    by code_simp
  have h2: "is_table_header (vendor h3c_env)
     (strip ''Temp.(C)  Voltage(V)  Bias(mA)  RX power(dBm)  TX power(dBm)'')"
    by code_simp
  have h3: "passes_markers h3c_env after_diag_marker ''36  3.31  6.13  -5.50  -2.25''"
    by code_simp
  have h4: "\<not> is_table_header (vendor h3c_env) (strip ''36  3.31  6.13  -5.50  -2.25'')"
    by code_simp
  note t = table_header_takes_one_row [OF h1 h2 h3 h4]
  have s1: "snd (process_line h3c_env
      ''Temp.(C)  Voltage(V)  Bias(mA)  RX power(dBm)  TX power(dBm)'' after_diag_marker) =
      after_diag_header"
    by (simp only: segment_step_4 snd_conv)
  have s2: "snd (process_line h3c_env ''36  3.31  6.13  -5.50  -2.25'' after_diag_header) =
      after_diag_row"
    by (simp only: segment_step_5 snd_conv)
  have i: "rx_power_col_idx after_diag_header = Some 3 \<and> tx_power_col_idx after_diag_header = Some 4"
    by (simp add: after_diag_header_def)
  have p: "rx_power after_diag_marker = None \<and> tx_power after_diag_marker = None"
    by (simp add: after_diag_marker_def opened_def)
  have v: "rx_power after_diag_row = Some (- 11 / 2) \<and> tx_power after_diag_row = Some (- 9 / 4)"
    by (simp add: after_diag_row_def)
  have u: "rx_power after_diag_row =
       column_power (rx_power_col_idx after_diag_header)
         (re_split_ws2 (strip ''36  3.31  6.13  -5.50  -2.25'')) (rx_power after_diag_marker) \<and>
     tx_power after_diag_row =
       column_power (tx_power_col_idx after_diag_header)
         (re_split_ws2 (strip ''36  3.31  6.13  -5.50  -2.25'')) (tx_power after_diag_marker) \<and>
     \<not> table_header_found after_diag_row"
    using t unfolding Let_def s1 s2 by (elim conjE, intro conjI)
  have w: "rx_power after_diag_row =
     column_power (Some 3) (re_split_ws2 (strip ''36  3.31  6.13  -5.50  -2.25'')) None \<and>
   tx_power after_diag_row =
     column_power (Some 4) (re_split_ws2 (strip ''36  3.31  6.13  -5.50  -2.25'')) None \<and>
   \<not> table_header_found after_diag_row"
    using u i p by simp
  show ?thesis
    using h1 h2 h3 h4 i v w third_row_not_table_data
    by - (elim conjE, intro conjI, assumption+)
qed

text \<open>
  Claim C8, amended. A line with the token \<^verbatim>\<open>status normal\<close> or \<^verbatim>\<open>status abnormal\<close>
  that reaches the value steps (optical port, no earlier test taking the line, no table
  row pending) sets the status to the captured word, whatever the status was. When
  \<open>is_optical_port\<close> is cleared, as it is whenever the status is one of the non-optical
  family, a line without interface name and status marker is skipped and the status
  stays.
\<close>

theorem status_token_overwrites_when_optical:
  "(passes_markers env s raw \<and> \<not> is_table_header (vendor env) (strip raw) \<and>
    \<not> table_header_found s \<and> re_search STATUS_RE (strip raw) = Some m \<and>
    match_group m 1 = Some g
      \<longrightarrow> status (snd (process_line env raw s)) = Reported g) \<and>
   (re_search PORT_RE (strip raw) = None \<and> \<not> marker_line s raw \<and> \<not> is_optical_port s
      \<longrightarrow> status (snd (process_line env raw s)) = status s)"
proof (intro conjI impI)
  assume a: "passes_markers env s raw \<and> \<not> is_table_header (vendor env) (strip raw) \<and>
    \<not> table_header_found s \<and> re_search STATUS_RE (strip raw) = Some m \<and>
    match_group m 1 = Some g"
  then have "process_line env raw s =
      ([], value_steps (vendor env) (strip raw) (with_command_type env raw s))"
    using process_line_values by blast
  then show "status (snd (process_line env raw s)) = Reported g"
    using a by (simp add: value_steps_def Let_def reported_status_def)
next
  assume "re_search PORT_RE (strip raw) = None \<and> \<not> marker_line s raw \<and> \<not> is_optical_port s"
  then show "status (snd (process_line env raw s)) = status s"
    using process_line_skipped [of raw s env] by (simp add: with_command_type_def)
qed

theorem status_token_overwrites_when_optical_witness:
  "passes_markers h3c_env (port_open\<lparr>status := Reported ''normal''\<rparr>) ''Transceiver status abnormal'' \<and>
   \<not> is_table_header (vendor h3c_env) (strip ''Transceiver status abnormal'') \<and>
   \<not> table_header_found (port_open\<lparr>status := Reported ''normal''\<rparr>) \<and>
   re_search STATUS_RE (strip ''Transceiver status abnormal'') = Some [(1, ''abnormal'')] \<and>
   match_group [(1, ''abnormal'')] 1 = Some ''abnormal'' \<and>
   status (snd (process_line h3c_env ''Transceiver status abnormal''
     (port_open\<lparr>status := Reported ''normal''\<rparr>))) = Reported ''abnormal'' \<and>
   re_search PORT_RE (strip ''Transceiver status normal'') = None \<and>
   \<not> marker_line port_absent ''Transceiver status normal'' \<and>
   \<not> is_optical_port port_absent \<and>
   status (snd (process_line h3c_env ''Transceiver status normal'' port_absent)) = status port_absent"
proof -
  let ?s = "port_open\<lparr>status := Reported ''normal''\<rparr>"
  have h1: "passes_markers h3c_env ?s ''Transceiver status abnormal''"
    by code_simp
  have h2: "\<not> is_table_header (vendor h3c_env) (strip ''Transceiver status abnormal'')"
    by code_simp
  have h3: "\<not> table_header_found ?s"
    by (simp add: port_open_def opened_def)
  have h4: "re_search STATUS_RE (strip ''Transceiver status abnormal'') = Some [(1, ''abnormal'')]"
    by code_simp
  have h5: "match_group [(1, ''abnormal'')] 1 = Some ''abnormal''"
    by (simp add: match_group_def)
  have k1: "re_search PORT_RE (strip ''Transceiver status normal'') = None"
    by code_simp
  have k2: "\<not> marker_line port_absent ''Transceiver status normal''"
    by code_simp
  have k3: "\<not> is_optical_port port_absent"
    by (simp add: port_absent_def)
  have a: "status (snd (process_line h3c_env ''Transceiver status abnormal'' ?s)) =
      Reported ''abnormal''"
    using conjunct1 [OF status_token_overwrites_when_optical
        [where env = h3c_env and s = "?s" and raw = "''Transceiver status abnormal''"
           and m = "[(1, ''abnormal'')]" and g = "''abnormal''"]]
      h1 h2 h3 h4 h5 by blast
  have b: "status (snd (process_line h3c_env ''Transceiver status normal'' port_absent)) =
      status port_absent"
    using conjunct2 [OF status_token_overwrites_when_optical
        [where env = h3c_env and s = port_absent and raw = "''Transceiver status normal''"]]
      k1 k2 k3 by blast
  show ?thesis
    using h1 h2 h3 h4 h5 a k1 k2 k3 b by (intro conjI)
qed

text \<open>
  The claim as stated, with a prior status of the non-optical family, fails: a port
  marked absent is reached by an interface line and an absent line, and the line
  \<^verbatim>\<open>Transceiver status normal\<close>, which holds the token, leaves its status absent.
\<close>

theorem status_token_skipped_on_absent_port:
  "scan_lines h3c_env [''GE1/0/1 transceiver diagnostic information:'', ''The transceiver is absent.'']
     (initial_context None) = ([], port_absent) \<and>
   current_port port_absent = Some ''GE1/0/1'' \<and> status port_absent = Absent \<and>
   re_search STATUS_RE (strip ''Transceiver status normal'') = Some [(1, ''normal'')] \<and>
   status (snd (process_line h3c_env ''Transceiver status normal'' port_absent)) = Absent"
  by code_simp

text \<open>
  Claim C9. The device name is the first that matches, in this order: the prompt pattern
  (a name in square or angle brackets), \<^verbatim>\<open>BRACKET_RE\<close> (a bracketed name with the prefix
  SD-JN- or SD-JY-), the field \<^verbatim>\<open>Device Name:\<close>, the field \<^verbatim>\<open>System Name:\<close>, and else the
  base name of the file. \<open>resolve_device\<close> is a total function into strings: no branch
  of the cascade raises. For the text that holds only \<^verbatim>\<open>System Name: SW-CORE-01\<close> the
  result is \<^verbatim>\<open>SW-CORE-01\<close>.
\<close>

theorem device_cascade:
  "(first_group PROMPT_RE t = Some d \<longrightarrow> resolve_device t base = d) \<and>
   (first_group PROMPT_RE t = None \<and> first_group BRACKET_RE t = Some d
      \<longrightarrow> resolve_device t base = d) \<and>
   (first_group PROMPT_RE t = None \<and> first_group BRACKET_RE t = None \<and>
    first_group DEVICE_NAME_RE t = Some d \<longrightarrow> resolve_device t base = d) \<and>
   (first_group PROMPT_RE t = None \<and> first_group BRACKET_RE t = None \<and>
    first_group DEVICE_NAME_RE t = None \<and> first_group SYSTEM_NAME_RE t = Some d
      \<longrightarrow> resolve_device t base = d) \<and>
   (first_group PROMPT_RE t = None \<and> first_group BRACKET_RE t = None \<and>
    first_group DEVICE_NAME_RE t = None \<and> first_group SYSTEM_NAME_RE t = None
      \<longrightarrow> resolve_device t base = base) \<and>
   clean_text [''System Name: SW-CORE-01''] = ''System Name: SW-CORE-01'' \<and>
   resolve_device ''System Name: SW-CORE-01'' base = ''SW-CORE-01''"
proof -
  have c: "clean_text [''System Name: SW-CORE-01''] = ''System Name: SW-CORE-01''"
    by code_simp
  have h: "first_group PROMPT_RE ''System Name: SW-CORE-01'' = None \<and>
      first_group BRACKET_RE ''System Name: SW-CORE-01'' = None \<and>
      first_group DEVICE_NAME_RE ''System Name: SW-CORE-01'' = None \<and>
      first_group SYSTEM_NAME_RE ''System Name: SW-CORE-01'' = Some ''SW-CORE-01''"
    by code_simp
  have r: "resolve_device ''System Name: SW-CORE-01'' base = ''SW-CORE-01''"
    using h by (simp add: resolve_device_def)
  show ?thesis
    using c r by (simp add: resolve_device_def)
qed

theorem device_cascade_witness:
  "first_group PROMPT_RE ''Device Name: SW2'' = None \<and>
   first_group BRACKET_RE ''Device Name: SW2'' = None \<and>
   first_group DEVICE_NAME_RE ''Device Name: SW2'' = Some ''SW2'' \<and>
   resolve_device ''Device Name: SW2'' ''sw1.log'' = ''SW2'' \<and>
   first_group PROMPT_RE ''no name here'' = None \<and>
   first_group BRACKET_RE ''no name here'' = None \<and>
   first_group DEVICE_NAME_RE ''no name here'' = None \<and>
   first_group SYSTEM_NAME_RE ''no name here'' = None \<and>
   resolve_device ''no name here'' ''sw1.log'' = ''sw1.log'' \<and>
   first_group PROMPT_RE ''<SW1>display version'' = Some ''SW1'' \<and>
   resolve_device ''<SW1>display version'' ''sw1.log'' = ''SW1''"
proof -
  have a: "first_group PROMPT_RE ''Device Name: SW2'' = None \<and>
   first_group BRACKET_RE ''Device Name: SW2'' = None \<and>
   first_group DEVICE_NAME_RE ''Device Name: SW2'' = Some ''SW2''"
    by code_simp
  have b: "first_group PROMPT_RE ''no name here'' = None \<and>
   first_group BRACKET_RE ''no name here'' = None \<and>
   first_group DEVICE_NAME_RE ''no name here'' = None \<and>
   first_group SYSTEM_NAME_RE ''no name here'' = None"
    by code_simp
  have c: "first_group PROMPT_RE ''<SW1>display version'' = Some ''SW1''"
    by code_simp
  have ra: "resolve_device ''Device Name: SW2'' ''sw1.log'' = ''SW2''"
    using device_cascade [of "''Device Name: SW2''" "''SW2''" "''sw1.log''"] a by blast
  have rb: "resolve_device ''no name here'' ''sw1.log'' = ''sw1.log''"
    using device_cascade [of "''no name here''" _ "''sw1.log''"] b by blast
  have rc: "resolve_device ''<SW1>display version'' ''sw1.log'' = ''SW1''"
    using device_cascade [of "''<SW1>display version''" "''SW1''" "''sw1.log''"] c by blast
  show ?thesis
    using a ra b rb c rc by - (elim conjE, intro conjI, assumption+)
qed

end
